theory Spec2Isabelle
  imports Complex_Main "HOL-Library.Multiset"
begin

section \<open>Python values and exceptions\<close>

text \<open>
  Exceptions of the Python source are values: every function that can raise returns
  \<open>py_error + 'a\<close>, with \<open>Inl\<close> the exception. \<open>ValueError\<close> carries the list its
  message prints (the missing required columns of \<open>parse_csv\<close>; no list for a
  \<open>ValueError\<close> raised elsewhere).
\<close>

datatype py_error =
    ValueError "string list"
  | TypeError
  | IndexError
  | ZeroDivisionError
  | AttributeError
  | OtherError

definition bind_err :: "py_error + 'a \<Rightarrow> ('a \<Rightarrow> py_error + 'b) \<Rightarrow> py_error + 'b" where
  "bind_err m f = (case m of Inl e \<Rightarrow> Inl e | Inr x \<Rightarrow> f x)"

section \<open>ibm\_quantum\_agent.py: the cost graph\<close>

text \<open>
  A \<open>networkx.DiGraph\<close> as the agent reads it: \<open>G.edges()\<close> is the list of directed
  edges in the graph's iteration order. Account ids are strings, qubit indices naturals.
\<close>

record digraph =
  graph_nodes :: "string list"
  graph_edges :: "(string \<times> string) list"

type_synonym qedge = "nat \<times> nat"

text \<open>\<open>idx = {acc: i for i, acc in enumerate(members)}\<close>: a later duplicate overwrites.\<close>

definition member_idx :: "string list \<Rightarrow> (string \<rightharpoonup> nat)" where
  "member_idx members = fold (\<lambda>(i, acc) m. m(acc \<mapsto> i)) (enumerate 0 members) Map.empty"

text \<open>First loop of \<open>_get_graph_edges\<close>: the edges of \<open>G\<close> between two members.\<close>

fun induced_edges :: "(string \<rightharpoonup> nat) \<Rightarrow> (string \<times> string) list \<Rightarrow> qedge list" where
  "induced_edges idx [] = []"
| "induced_edges idx ((u, v) # es) =
     (case (idx u, idx v) of
        (Some i, Some j) \<Rightarrow> (i, j) # induced_edges idx es
      | _ \<Rightarrow> induced_edges idx es)"

text \<open>Second loop: iterate over a copy, append the reverse edge when it is not yet there.\<close>

definition add_reverse :: "qedge list \<Rightarrow> qedge list" where
  "add_reverse edges =
     fold (\<lambda>(u, v) es. if (v, u) \<notin> set es then es @ [(v, u)] else es) edges edges"

text \<open>Third loop: keep the first edge of every unordered pair \<open>(min e, max e)\<close>.\<close>

definition edge_key :: "qedge \<Rightarrow> qedge" where
  "edge_key e = (min (fst e) (snd e), max (fst e) (snd e))"

fun dedup_loop :: "qedge list \<Rightarrow> qedge set \<Rightarrow> qedge list \<Rightarrow> qedge list" where
  "dedup_loop [] seen unique = unique"
| "dedup_loop (e # es) seen unique =
     (if edge_key e \<notin> seen
      then dedup_loop es (insert (edge_key e) seen) (unique @ [e])
      else dedup_loop es seen unique)"

definition get_graph_edges :: "string list \<Rightarrow> digraph \<Rightarrow> qedge list" where
  "get_graph_edges members G =
     dedup_loop (add_reverse (induced_edges (member_idx members) (graph_edges G))) {} []"

section \<open>ibm\_quantum\_agent.py: cut values and the greedy baseline\<close>

text \<open>
  \<open>_compute_maxcut_value\<close>: \<open>bitstring[u]\<close> raises \<open>IndexError\<close> out of range.
\<close>

fun maxcut_loop :: "string \<Rightarrow> qedge list \<Rightarrow> int \<Rightarrow> py_error + int" where
  "maxcut_loop bs [] k = Inr k"
| "maxcut_loop bs ((u, v) # es) k =
     (if u < length bs \<and> v < length bs
      then maxcut_loop bs es (if bs ! u \<noteq> bs ! v then k + 1 else k)
      else Inl IndexError)"

definition compute_maxcut_value :: "string \<Rightarrow> qedge list \<Rightarrow> py_error + int" where
  "compute_maxcut_value bitstring edges = maxcut_loop bitstring edges 0"

text \<open>
  The generator condition of \<open>_classical_greedy_maxcut\<close>,
  \<open>(u == i and partition[v] == b) or (v == i and partition[u] == b)\<close>, with Python's
  short-circuit evaluation: \<open>partition[v]\<close> is read only when \<open>u == i\<close>, and the second
  disjunct only when the first is false.
\<close>

definition greedy_cond :: "nat list \<Rightarrow> nat \<Rightarrow> nat \<Rightarrow> qedge \<Rightarrow> py_error + bool" where
  "greedy_cond part i b e =
     (let u = fst e; v = snd e;
          second = (if v = i
                    then (if u < length part then Inr (part ! u = b)
                          else Inl IndexError)
                    else Inr False)
      in if u = i
         then (if v < length part
               then (if part ! v = b then Inr True else second)
               else Inl IndexError)
         else second)"

text \<open>\<open>sum(1 for u, v in edges if ...)\<close>.\<close>

fun greedy_count :: "nat list \<Rightarrow> nat \<Rightarrow> nat \<Rightarrow> qedge list \<Rightarrow> py_error + nat" where
  "greedy_count part i b [] = Inr 0"
| "greedy_count part i b (e # es) =
     bind_err (greedy_cond part i b e) (\<lambda>c.
     bind_err (greedy_count part i b es) (\<lambda>k.
     Inr (if c then k + 1 else k)))"

text \<open>The body of \<open>for i in range(n)\<close>, and the loop over the indices.\<close>

definition greedy_step :: "qedge list \<Rightarrow> nat \<Rightarrow> nat list \<Rightarrow> py_error + nat list" where
  "greedy_step edges i part =
     bind_err (greedy_count part i 0 edges) (\<lambda>cuts_0.
     bind_err (greedy_count part i 1 edges) (\<lambda>cuts_1.
     Inr (part[i := (if cuts_1 > cuts_0 then 1 else 0)])))"

fun greedy_loop :: "qedge list \<Rightarrow> nat list \<Rightarrow> nat list \<Rightarrow> py_error + nat list" where
  "greedy_loop edges [] part = Inr part"
| "greedy_loop edges (i # rest) part =
     bind_err (greedy_step edges i part) (greedy_loop edges rest)"

definition bit_char :: "nat \<Rightarrow> char" where
  "bit_char b = (if b = 0 then CHR ''0'' else CHR ''1'')"

definition classical_greedy_maxcut :: "nat \<Rightarrow> qedge list \<Rightarrow> py_error + (string \<times> int)" where
  "classical_greedy_maxcut n edges =
     bind_err (greedy_loop edges [0..<n] (replicate n 0)) (\<lambda>part.
     let bs = map bit_char part
     in bind_err (compute_maxcut_value bs edges) (\<lambda>k. Inr (bs, k)))"

section \<open>ibm\_quantum\_agent.py: processing the measurement counts\<close>

text \<open>
  Python floats are modelled as exact real numbers. \<open>round(x, d)\<close> rounds to \<open>d\<close> decimals,
  a tie going to the even neighbour.
\<close>

definition round_half_even :: "real \<Rightarrow> int" where
  "round_half_even x =
     (let f = \<lfloor>x\<rfloor>; d = x - of_int f
      in if d < 1 / 2 then f
         else if 1 / 2 < d then f + 1
         else if even f then f else f + 1)"

definition py_round :: "real \<Rightarrow> nat \<Rightarrow> real" where
  "py_round x d = of_int (round_half_even (x * 10 ^ d)) / 10 ^ d"

definition py_div :: "real \<Rightarrow> real \<Rightarrow> py_error + real" where
  "py_div a b = (if b = 0 then Inl ZeroDivisionError else Inr (a / b))"

text \<open>
  \<open>str.zfill(width)\<close> pads with zeros on the left, after a leading sign;
  \<open>s[-n:]\<close> keeps the last \<open>n\<close> characters, and all of \<open>s\<close> when \<open>n = 0\<close>.
\<close>

definition zfill :: "nat \<Rightarrow> string \<Rightarrow> string" where
  "zfill width s =
     (if width \<le> length s then s
      else (case s of
              [] \<Rightarrow> replicate width (CHR ''0'')
            | c # rest \<Rightarrow>
                if c = CHR ''+'' \<or> c = CHR ''-''
                then c # replicate (width - length s) (CHR ''0'') @ rest
                else replicate (width - length s) (CHR ''0'') @ s))"

definition last_chars :: "nat \<Rightarrow> string \<Rightarrow> string" where
  "last_chars n s = (if n = 0 then s else drop (length s - n) s)"

text \<open>\<open>bs.replace(' ', '').zfill(n)[-n:]\<close>.\<close>

definition clean_bitstring :: "nat \<Rightarrow> string \<Rightarrow> string" where
  "clean_bitstring n bs = last_chars n (zfill n (filter (\<lambda>c. c \<noteq> CHR '' '') bs))"

text \<open>
  The measurement counts are a dict from bitstring to count, kept as the list of its
  items in the dict's order. \<open>sorted(..., key=count, reverse=True)\<close> is stable: items
  with equal counts keep their order.
\<close>

type_synonym counts = "(string \<times> nat) list"

definition sort_counts :: "counts \<Rightarrow> counts" where
  "sort_counts counts = sort_key (\<lambda>item. - int (snd item)) counts"

text \<open>The loop that finds the best partition among the given items.\<close>

fun best_loop ::
  "nat \<Rightarrow> qedge list \<Rightarrow> counts \<Rightarrow> string option \<times> int \<Rightarrow> py_error + (string option \<times> int)"
where
  "best_loop n edges [] best = Inr best"
| "best_loop n edges (item # rest) best =
     (let bs_clean = clean_bitstring n (fst item)
      in bind_err (compute_maxcut_value bs_clean edges) (\<lambda>c.
         best_loop n edges rest (if snd best < c then (Some bs_clean, c) else best)))"

text \<open>
  \<open>[members[i] for i in range(n) if best_bs[i] == ch]\<close>: subscripting \<open>None\<close> raises
  \<open>TypeError\<close>, a bitstring shorter than \<open>n\<close> raises \<open>IndexError\<close>; with \<open>n = 0\<close>
  nothing is subscripted.
\<close>

definition select_group :: "string list \<Rightarrow> string option \<Rightarrow> char \<Rightarrow> py_error + string list" where
  "select_group members best_bs ch =
     (if members = [] then Inr []
      else (case best_bs of
              None \<Rightarrow> Inl TypeError
            | Some bs \<Rightarrow>
                if length bs < length members then Inl IndexError
                else Inr (map (\<lambda>i. members ! i)
                            (filter (\<lambda>i. bs ! i = ch) [0..<length members]))))"

record measurement =
  m_bitstring :: string
  m_probability :: real
  m_count :: nat
  m_cut_value :: int

fun top_measurements_of ::
  "nat \<Rightarrow> qedge list \<Rightarrow> nat \<Rightarrow> counts \<Rightarrow> py_error + measurement list"
where
  "top_measurements_of n edges tot [] = Inr []"
| "top_measurements_of n edges tot (item # rest) =
     bind_err (py_div (of_nat (snd item)) (of_nat tot)) (\<lambda>p.
     bind_err (compute_maxcut_value (clean_bitstring n (fst item)) edges) (\<lambda>c.
     bind_err (top_measurements_of n edges tot rest) (\<lambda>ms.
     Inr (\<lparr>m_bitstring = clean_bitstring n (fst item), m_probability = py_round p 4,
           m_count = snd item, m_cut_value = c\<rparr> # ms))))"

text \<open>
  \<open>sum(cnt / total for bs, cnt in ... if clean(bs) == best_bs)\<close>: the division is
  evaluated for the matching items only.
\<close>

fun dominant_prob_of :: "nat \<Rightarrow> nat \<Rightarrow> string option \<Rightarrow> counts \<Rightarrow> py_error + real" where
  "dominant_prob_of n tot best_bs [] = Inr 0"
| "dominant_prob_of n tot best_bs (item # rest) =
     (if Some (clean_bitstring n (fst item)) = best_bs
      then bind_err (py_div (of_nat (snd item)) (of_nat tot)) (\<lambda>p.
           bind_err (dominant_prob_of n tot best_bs rest) (\<lambda>s. Inr (p + s)))
      else dominant_prob_of n tot best_bs rest)"

definition dominant_score :: "real \<Rightarrow> real \<Rightarrow> real" where
  "dominant_score risk_score dominant_prob =
     py_round (min (risk_score * (9 / 10) + dominant_prob * 10) 100) 2"

definition minority_score :: "real \<Rightarrow> real" where
  "minority_score risk_score = py_round (min (risk_score * (6 / 10)) 100) 2"

text \<open>The two loops that fill \<open>quantum_scores\<close>: dominant group first, minority second.\<close>

definition fill_scores ::
  "string list \<Rightarrow> real \<Rightarrow> string list \<Rightarrow> real \<Rightarrow> (string \<rightharpoonup> real)"
where
  "fill_scores dominant_group ds minority_group ms =
     fold (\<lambda>acc m. m(acc \<mapsto> ms)) minority_group
       (fold (\<lambda>acc m. m(acc \<mapsto> ds)) dominant_group Map.empty)"

text \<open>
  The result dict. The keys that only \<open>_process_counts\<close> sets are the record
  \<open>quantum_detail\<close>; \<open>reason\<close> is set by \<open>_fallback_result\<close> only. The keys
  \<open>noise_entropy\<close> (a base-2 logarithm of floats), \<open>qaoa_gamma\<close> and \<open>qaoa_beta\<close>
  (constants) are left out.
\<close>

record quantum_detail =
  n_qubits :: nat
  shots :: nat
  execution_time_seconds :: real
  edges_analyzed :: nat
  best_bitstring :: "string option"
  best_cut_value :: int
  max_possible_cut :: nat
  cut_ratio :: real
  group_0 :: "string list"
  group_1 :: "string list"
  classical_bitstring :: string
  classical_cut_value :: int
  top_measurements :: "measurement list"
  total_unique_bitstrings :: nat

record agent_result =
  ibm_quantum :: bool
  hardware :: string
  backend :: string
  ring_id :: string
  reason :: "string option"
  quantum_scores :: "string \<rightharpoonup> real"
  suspicious_set :: "string list"
  quantum_advantage_pct :: real
  detail :: "quantum_detail option"

definition dominant_of :: "string list \<Rightarrow> string list \<Rightarrow> string list" where
  "dominant_of g0 g1 = (if length g0 \<le> length g1 then g1 else g0)"

definition minority_of :: "string list \<Rightarrow> string list \<Rightarrow> string list" where
  "minority_of g0 g1 = (if length g0 \<le> length g1 then g0 else g1)"

definition process_counts ::
  "counts \<Rightarrow> string list \<Rightarrow> string \<Rightarrow> real \<Rightarrow> qedge list \<Rightarrow> string \<Rightarrow> real \<Rightarrow> string \<Rightarrow> nat
     \<Rightarrow> py_error + agent_result"
where
  "process_counts counts members rid risk_score edges backend_name elapsed hw nshots =
     (let n = length members;
          tot = sum_list (map snd counts);
          sorted_counts = sort_counts counts
      in bind_err (best_loop n edges (take 20 sorted_counts) (None, - 1)) (\<lambda>best.
         bind_err (select_group members (fst best) (CHR ''0'')) (\<lambda>g0.
         bind_err (select_group members (fst best) (CHR ''1'')) (\<lambda>g1.
         bind_err (classical_greedy_maxcut n edges) (\<lambda>classical.
         bind_err (top_measurements_of n edges tot (take 8 sorted_counts)) (\<lambda>tops.
         bind_err (dominant_prob_of n tot (fst best) (take 10 sorted_counts)) (\<lambda>dominant_prob.
         Inr \<lparr>ibm_quantum = True,
              hardware = hw,
              backend = backend_name,
              ring_id = rid,
              reason = None,
              quantum_scores =
                fill_scores (dominant_of g0 g1) (dominant_score risk_score dominant_prob)
                  (minority_of g0 g1) (minority_score risk_score),
              suspicious_set = dominant_of g0 g1,
              quantum_advantage_pct =
                py_round (of_int (snd best - snd classical)
                            / of_nat (max (length edges) 1) * 100) 2,
              detail = Some
                \<lparr>n_qubits = n,
                 shots = nshots,
                 execution_time_seconds = elapsed,
                 edges_analyzed = length edges,
                 best_bitstring = fst best,
                 best_cut_value = snd best,
                 max_possible_cut = length edges,
                 cut_ratio = py_round (of_int (snd best) / of_nat (max (length edges) 1)) 3,
                 group_0 = g0,
                 group_1 = g1,
                 classical_bitstring = fst classical,
                 classical_cut_value = snd classical,
                 top_measurements = tops,
                 total_unique_bitstrings = length counts\<rparr>\<rparr>)))))))"

section \<open>ibm\_quantum\_agent.py: the fallback chain of \<open>IBMQuantumAgent.run\<close>\<close>

text \<open>
  The ring dict: each key may be absent, \<open>run\<close> reads it with \<open>.get(key, default)\<close>.
\<close>

record ring =
  member_accounts :: "string list option"
  ring_id_key :: "string option"
  risk_score :: "real option"

text \<open>
  What lies outside the repository (the IBM runtime, Qiskit, Aer) is the environment:
  \<open>ibm_connected\<close> is what \<open>_connect()\<close> returns, \<open>best_backend n\<close> the name of the backend
  \<open>_get_best_backend(n)\<close> selects (\<open>None\<close> when it fails), \<open>ibm_job\<close> and \<open>aer_job\<close> the
  statements of the two \<open>try\<close> blocks up to the counts: building and transpiling the circuit,
  running it, reading the counts and the elapsed time, or the exception raised on the way.
\<close>

record backends =
  ibm_connected :: bool
  qiskit_available :: bool
  best_backend :: "nat \<Rightarrow> string option"
  ibm_job :: "string \<Rightarrow> nat \<Rightarrow> qedge list \<Rightarrow> py_error + (counts \<times> real)"
  aer_job :: "nat \<Rightarrow> qedge list \<Rightarrow> py_error + (counts \<times> real)"

definition MAX_QUBITS_REAL :: nat where "MAX_QUBITS_REAL = 5"
definition MAX_QUBITS_SIM :: nat where "MAX_QUBITS_SIM = 8"
definition SHOTS_REAL :: nat where "SHOTS_REAL = 1024"
definition SHOTS_SIM :: nat where "SHOTS_SIM = 2048"

definition fallback_result :: "string \<Rightarrow> string list \<Rightarrow> string \<Rightarrow> agent_result" where
  "fallback_result rid members why =
     \<lparr>ibm_quantum = False,
      hardware = ''none'',
      backend = ''unavailable'',
      ring_id = rid,
      reason = Some why,
      quantum_scores = fold (\<lambda>acc m. m(acc \<mapsto> 50)) members Map.empty,
      suspicious_set = members,
      quantum_advantage_pct = 0,
      detail = None\<rparr>"

text \<open>
  \<open>_run_on_ibm\<close> returns \<open>None\<close> when there is no edge, no backend, or an exception in its
  \<open>try\<close> block (which includes the call of \<open>_process_counts\<close>).
\<close>

definition run_on_ibm ::
  "backends \<Rightarrow> digraph \<Rightarrow> string list \<Rightarrow> string \<Rightarrow> real \<Rightarrow> agent_result option"
where
  "run_on_ibm env G members rid risk =
     (let n = length members; edges = get_graph_edges members G
      in if edges = [] then None
         else (case best_backend env n of
                 None \<Rightarrow> None
               | Some backend_name \<Rightarrow>
                   (case bind_err (ibm_job env backend_name n edges) (\<lambda>job.
                           process_counts (fst job) members rid risk edges backend_name
                             (snd job) ''real'' SHOTS_REAL) of
                      Inl e \<Rightarrow> None
                    | Inr r \<Rightarrow> Some r)))"

text \<open>
  \<open>_run_on_aer\<close> turns the same failures into the fallback result. The reason of the
  last one is \<open>f"aer_error: {e}"\<close>; the model keeps its fixed prefix.
\<close>

definition run_on_aer ::
  "backends \<Rightarrow> digraph \<Rightarrow> string list \<Rightarrow> string \<Rightarrow> real \<Rightarrow> agent_result"
where
  "run_on_aer env G members rid risk =
     (let n = length members; edges = get_graph_edges members G
      in if edges = [] then fallback_result rid members ''no_edges''
         else (case bind_err (aer_job env n edges) (\<lambda>job.
                      process_counts (fst job) members rid risk edges ''aer_simulator''
                        (snd job) ''simulator'' SHOTS_SIM) of
                 Inl e \<Rightarrow> fallback_result rid members ''aer_error: ''
               | Inr r \<Rightarrow> r))"

definition run :: "backends \<Rightarrow> digraph \<Rightarrow> ring \<Rightarrow> py_error + agent_result" where
  "run env G top_ring =
     (let members = (case member_accounts top_ring of None \<Rightarrow> [] | Some ms \<Rightarrow> ms);
          rid = (case ring_id_key top_ring of None \<Rightarrow> ''RING_001'' | Some i \<Rightarrow> i);
          risk = (case risk_score top_ring of None \<Rightarrow> 50 | Some x \<Rightarrow> x)
      in if length members < 2
         then Inr (fallback_result rid members ''insufficient_members'')
         else (case (if ibm_connected env
                     then run_on_ibm env G (take MAX_QUBITS_REAL members) rid risk
                     else None) of
                 Some result \<Rightarrow> Inr result
               | None \<Rightarrow>
                   if qiskit_available env
                   then Inr (run_on_aer env G (take MAX_QUBITS_SIM members) rid risk)
                   else Inr (fallback_result rid members ''qiskit_unavailable'')))"

section \<open>csv\_parser.py\<close>

text \<open>
  What pandas does is the environment. A character is a code point below 256. \<open>read_csv\<close>
  turns the file content into a frame or raises; a frame is its header and its rows, a
  row the cells under the labels of the header from left to right (\<open>None\<close> the missing
  value NaN). \<open>to_numeric\<close> and \<open>to_datetime\<close> are the coercions with \<open>errors="coerce"\<close>.
  The source applies them to a whole column, before any row is dropped, so they are
  functions of the column: they return the coerced column (\<open>None\<close> is NaN,
  respectively NaT; a timestamp is a number of nanoseconds, as pandas stores it) or
  raise, as \<open>to_datetime\<close> does for time zones it cannot mix.
\<close>

type_synonym cell = "string option"

record frame =
  columns :: "string list"
  frame_rows :: "cell list list"

record pandas =
  read_csv :: "string \<Rightarrow> py_error + frame"
  to_numeric :: "cell list \<Rightarrow> py_error + real option list"
  to_datetime :: "cell list \<Rightarrow> py_error + int option list"

definition REQUIRED_COLUMNS :: "string list" where
  "REQUIRED_COLUMNS =
     [''transaction_id'', ''sender_id'', ''receiver_id'', ''amount'', ''timestamp'']"

text \<open>
  \<open>col.strip().lower().replace(" ", "_")\<close>. Below 256 the whitespace of \<open>str.strip\<close> is
  tab to carriage return, the four separators 28 to 31, the space, the next-line
  character 133 and the no-break space 160; the upper-case letters are A to Z and 192
  to 222 without the multiplication sign 215, each 32 below its lower-case letter.
\<close>

definition py_isspace :: "char \<Rightarrow> bool" where
  "py_isspace c = ((of_char c :: nat) \<in> {9, 10, 11, 12, 13, 28, 29, 30, 31, 32, 133, 160})"

definition py_strip :: "string \<Rightarrow> string" where
  "py_strip s = rev (dropWhile py_isspace (rev (dropWhile py_isspace s)))"

definition upper_letter :: "char \<Rightarrow> bool" where
  "upper_letter c =
     (let k = (of_char c :: nat)
      in (65 \<le> k \<and> k \<le> 90) \<or> (192 \<le> k \<and> k \<le> 222 \<and> k \<noteq> 215))"

definition py_lower_char :: "char \<Rightarrow> char" where
  "py_lower_char c = (if upper_letter c then char_of (of_char c + 32 :: nat) else c)"

definition normalise_column :: "string \<Rightarrow> string" where
  "normalise_column col =
     map (\<lambda>c. if c = CHR '' '' then CHR ''_'' else c) (map py_lower_char (py_strip col))"

text \<open>\<open>df.columns = [...]\<close>: the frame with its labels normalised.\<close>

definition normalise_columns :: "frame \<Rightarrow> frame" where
  "normalise_columns df = df\<lparr>columns := map normalise_column (columns df)\<rparr>"

text \<open>
  \<open>df[name]\<close> for a label of the header: the cells under the label, row by row. Two
  labels of the file can become one under the normalisation (\<open>Amount\<close> and \<open>amount\<close>);
  this is the column under the first of them, and \<open>parse_csv\<close> below says what the
  source does with the label then. A row too short for the label has a missing value
  there.
\<close>

fun column_position :: "string list \<Rightarrow> string \<Rightarrow> nat" where
  "column_position [] name = 0"
| "column_position (col # cols) name =
     (if col = name then 0 else Suc (column_position cols name))"

definition cell_at :: "'a option list \<Rightarrow> nat \<Rightarrow> 'a option" where
  "cell_at row i = (if i < length row then row ! i else None)"

definition getitem :: "frame \<Rightarrow> string \<Rightarrow> cell list" where
  "getitem df name = map (\<lambda>row. cell_at row (column_position (columns df) name)) (frame_rows df)"

text \<open>
  A row of the frame after \<open>dropna\<close>: sender, receiver, amount and timestamp are there;
  the transaction id is not in the \<open>subset\<close> and may be missing.
\<close>

record tx =
  transaction_id :: cell
  sender_id :: string
  receiver_id :: string
  amount :: real
  timestamp :: int

text \<open>
  \<open>dropna(subset=[sender_id, receiver_id, amount, timestamp])\<close> on the frame whose
  \<open>amount\<close> and \<open>timestamp\<close> columns have been replaced by the coerced columns \<open>nums\<close>
  and \<open>stamps\<close>. A row is given with its index; it is \<open>None\<close> when it is dropped.
\<close>

definition dropna_row ::
  "frame \<Rightarrow> real option list \<Rightarrow> int option list \<Rightarrow> nat \<times> cell list \<Rightarrow> tx option"
where
  "dropna_row df nums stamps ir =
     (case (cell_at (snd ir) (column_position (columns df) ''sender_id''),
            cell_at (snd ir) (column_position (columns df) ''receiver_id''),
            cell_at nums (fst ir),
            cell_at stamps (fst ir)) of
        (Some s, Some rc, Some a, Some t) \<Rightarrow>
          Some \<lparr>transaction_id = cell_at (snd ir) (column_position (columns df) ''transaction_id''),
                sender_id = s, receiver_id = rc, amount = a, timestamp = t\<rparr>
      | _ \<Rightarrow> None)"

definition dropna :: "frame \<Rightarrow> real option list \<Rightarrow> int option list \<Rightarrow> tx list" where
  "dropna df nums stamps = List.map_filter (dropna_row df nums stamps) (enumerate 0 (frame_rows df))"

text \<open>
  The graph the parser builds. Its nodes come from a Python set and its edges from a
  \<open>groupby\<close>, so the model fixes no iteration order: the nodes are a set, the edges and the
  node attributes are maps. An infinite time gap (\<open>float("inf")\<close>) is \<open>None\<close>.
\<close>

record edge_attr =
  total_amount :: real
  tx_count :: nat
  transactions :: "tx list"

record node_attr =
  total_sent :: real
  total_received :: real
  tx_count_sent :: nat
  tx_count_recv :: nat
  tx_count_total :: nat
  in_degree :: nat
  out_degree :: nat
  avg_time_gap :: "real option"
  min_time_gap :: "real option"

record tx_graph =
  nodes :: "string set"
  node_data :: "string \<rightharpoonup> node_attr"
  edge_data :: "string \<times> string \<rightharpoonup> edge_attr"

definition all_accounts :: "tx list \<Rightarrow> string set" where
  "all_accounts df = set (map sender_id df) \<union> set (map receiver_id df)"

definition edge_group :: "tx list \<Rightarrow> string \<times> string \<Rightarrow> edge_attr option" where
  "edge_group df e =
     (let grp = filter (\<lambda>t. (sender_id t, receiver_id t) = e) df
      in if grp = [] then None
         else Some \<lparr>total_amount = sum_list (map amount grp), tx_count = length grp,
                    transactions = grp\<rparr>)"

text \<open>
  The time gaps of an account: its timestamps as sender and as receiver, sorted, and the
  differences of neighbours (\<open>shift(1)\<close>, the first one dropped as NaN), in seconds.
\<close>

fun diffs :: "int list \<Rightarrow> int list" where
  "diffs (a # b # rest) = (b - a) # diffs (b # rest)"
| "diffs _ = []"

definition time_gaps :: "tx list \<Rightarrow> string \<Rightarrow> real list" where
  "time_gaps df a =
     map (\<lambda>d. of_int d / 10 ^ 9)
       (diffs (sort (map timestamp (filter (\<lambda>t. sender_id t = a) df)
                     @ map timestamp (filter (\<lambda>t. receiver_id t = a) df))))"

definition node_stats :: "tx list \<Rightarrow> string \<Rightarrow> node_attr" where
  "node_stats df a =
     (let sent = filter (\<lambda>t. sender_id t = a) df;
          recv = filter (\<lambda>t. receiver_id t = a) df;
          gaps = time_gaps df a
      in \<lparr>total_sent = sum_list (map amount sent),
          total_received = sum_list (map amount recv),
          tx_count_sent = length sent,
          tx_count_recv = length recv,
          tx_count_total = length sent + length recv,
          in_degree = card (set (map sender_id recv)),
          out_degree = card (set (map receiver_id sent)),
          avg_time_gap =
            (if gaps = [] then None
             else Some (sum_list gaps / of_nat (length gaps))),
          min_time_gap =
            (if gaps = [] then None else Some (Min (set gaps)))\<rparr>)"

definition build_graph :: "tx list \<Rightarrow> tx_graph" where
  "build_graph df =
     \<lparr>nodes = all_accounts df,
      node_data = (\<lambda>a. if a \<in> all_accounts df then Some (node_stats df a) else None),
      edge_data = edge_group df\<rparr>"

text \<open>The metadata; \<open>min\<close> and \<open>max\<close> of an empty timestamp column are NaT (\<open>None\<close>).\<close>

record metadata =
  total_transactions :: nat
  total_accounts :: nat
  total_edges :: nat
  date_range_start :: "int option"
  date_range_end :: "int option"

definition build_metadata :: "tx list \<Rightarrow> metadata" where
  "build_metadata df =
     \<lparr>total_transactions = length df,
      total_accounts = card (all_accounts df),
      total_edges = card (set (map (\<lambda>t. (sender_id t, receiver_id t)) df)),
      date_range_start = (if df = [] then None else Some (Min (set (map timestamp df)))),
      date_range_end = (if df = [] then None else Some (Max (set (map timestamp df))))\<rparr>"

text \<open>
  \<open>parse_csv\<close>. When a required label occurs twice in the normalised header, \<open>df[label]\<close>
  is a frame and not a column: \<open>pd.to_numeric\<close> raises a \<open>TypeError\<close> on it,
  \<open>pd.to_datetime\<close> a \<open>ValueError\<close> (it cannot assemble a date from duplicate keys),
  and \<open>df["sender_id"].unique()\<close> an \<open>AttributeError\<close>, a frame having no \<open>unique\<close>.
  Of two \<open>transaction_id\<close> columns \<open>itertuples\<close> keeps the first under that name. The
  function has no test for an empty frame or an empty graph.
\<close>

definition parse_csv :: "pandas \<Rightarrow> string \<Rightarrow> py_error + (tx list \<times> tx_graph \<times> metadata)" where
  "parse_csv pd file_content =
     bind_err (read_csv pd file_content) (\<lambda>df0.
     let df = normalise_columns df0;
         missing = filter (\<lambda>col. col \<notin> set (columns df)) REQUIRED_COLUMNS
     in if missing \<noteq> [] then Inl (ValueError missing)
        else if count_list (columns df) ''amount'' \<noteq> 1 then Inl TypeError
        else bind_err (to_numeric pd (getitem df ''amount'')) (\<lambda>nums.
             if count_list (columns df) ''timestamp'' \<noteq> 1 then Inl (ValueError [])
             else bind_err (to_datetime pd (getitem df ''timestamp'')) (\<lambda>stamps.
             if count_list (columns df) ''sender_id'' \<noteq> 1
                \<or> count_list (columns df) ''receiver_id'' \<noteq> 1
             then Inl AttributeError
             else (let retained = dropna df nums stamps
                   in Inr (retained, build_graph retained, build_metadata retained)))))"

section \<open>main.py: the stored state and the two endpoints\<close>

text \<open>
  The module globals \<open>latest_results\<close>, \<open>latest_graph\<close>, \<open>latest_df\<close>. The initial \<open>{}\<close>
  and \<open>None\<close> are \<open>None\<close>; a stored result dict is never empty (it has the keys
  \<open>graph_data\<close> and \<open>metadata\<close> at least).
\<close>

record 'r app_state =
  latest_results :: "'r option"
  latest_graph :: "tx_graph option"
  latest_df :: "tx list option"

datatype http_detail =
    NoAnalysisResults
  | NoNodesSpecified
  | StrOf py_error
  | AnalysisError py_error

datatype 'a response = HTTPException nat http_detail | JSONResponse 'a

definition is_ValueError :: "py_error \<Rightarrow> bool" where
  "is_ValueError e = (case e of ValueError _ \<Rightarrow> True | _ \<Rightarrow> False)"

text \<open>
  \<open>analyze_csv\<close>. \<open>upload\<close> is what reading and decoding the file gives (a
  \<open>UnicodeDecodeError\<close> is a \<open>ValueError\<close>). \<open>agents\<close> stands for steps 2 to 9 of the
  \<open>try\<close> block (the agents, the aggregator, the disruption engine, the crime team, the
  graph data), which are not in this module: the final output, or the exception raised
  on the way. \<open>respond\<close> stands for the statements of the \<open>try\<close> block that follow the
  assignment of \<open>latest_results\<close>: the log line that reads \<open>final_output['summary']\<close>
  and the construction of the \<open>JSONResponse\<close>, which serialises the output; it is the
  exception they raise, or \<open>None\<close>. Two globals are assigned right after parsing, the
  third after step 9; none is restored when a later statement raises.
\<close>

definition analyze_csv ::
  "pandas \<Rightarrow> (tx list \<Rightarrow> tx_graph \<Rightarrow> metadata \<Rightarrow> py_error + 'r) \<Rightarrow> ('r \<Rightarrow> py_error option)
     \<Rightarrow> py_error + string \<Rightarrow> 'r app_state \<Rightarrow> 'r app_state \<times> 'r response"
where
  "analyze_csv pd agents respond upload s =
     (let failed = (\<lambda>e. if is_ValueError e then HTTPException 400 (StrOf e)
                         else HTTPException 500 (AnalysisError e))
      in case bind_err upload (parse_csv pd) of
           Inl e \<Rightarrow> (s, failed e)
         | Inr (df, G, md) \<Rightarrow>
             (let s1 = s\<lparr>latest_graph := Some G, latest_df := Some df\<rparr>
              in case agents df G md of
                   Inl e \<Rightarrow> (s1, failed e)
                 | Inr final_output \<Rightarrow>
                     (let s2 = s1\<lparr>latest_results := Some final_output\<rparr>
                      in case respond final_output of
                           Some e \<Rightarrow> (s2, failed e)
                         | None \<Rightarrow> (s2, JSONResponse final_output))))"

text \<open>The JSON body of a What-If request, and Python's truth value of a JSON value.\<close>

datatype json =
    JNull
  | JBool bool
  | JNumber real
  | JString string
  | JArray "json list"
  | JObject "(string \<times> json) list"

fun truthy :: "json \<Rightarrow> bool" where
  "truthy JNull = False"
| "truthy (JBool b) = b"
| "truthy (JNumber n) = (n \<noteq> 0)"
| "truthy (JString s) = (s \<noteq> [])"
| "truthy (JArray xs) = (xs \<noteq> [])"
| "truthy (JObject kvs) = (kvs \<noteq> [])"

text \<open>\<open>dict.get(key, default)\<close> on a JSON object; of a repeated key the last value counts.\<close>

definition json_get :: "(string \<times> json) list \<Rightarrow> string \<Rightarrow> json \<Rightarrow> json" where
  "json_get kvs key dflt = (case map_of (rev kvs) key of None \<Rightarrow> dflt | Some v \<Rightarrow> v)"

text \<open>
  \<open>not latest_graph\<close>: \<open>None\<close> is false, and so is a graph with no node (its \<open>len\<close> is 0).
\<close>

definition graph_truthy :: "tx_graph option \<Rightarrow> bool" where
  "graph_truthy g = (case g of None \<Rightarrow> False | Some G \<Rightarrow> nodes G \<noteq> {})"

text \<open>
  \<open>whatif_simulate\<close>. \<open>simulator\<close> stands for building a \<open>WhatIfSimulator\<close> from the stored
  graph, frame and results and calling \<open>simulate(nodes_to_remove)\<close>. \<open>body\<close> is the parsed
  JSON of the request. A body that is no JSON object has no \<open>get\<close>: the
  \<open>AttributeError\<close> is not caught. The function assigns no global.
\<close>

definition whatif_simulate ::
  "(tx_graph \<Rightarrow> tx list option \<Rightarrow> 'r \<Rightarrow> json \<Rightarrow> py_error + 'w) \<Rightarrow> json \<Rightarrow> 'r app_state
     \<Rightarrow> 'r app_state \<times> (py_error + 'w response)"
where
  "whatif_simulate simulator body s =
     (case (latest_graph s, latest_results s) of
        (Some G, Some results) \<Rightarrow>
          if \<not> graph_truthy (Some G)
          then (s, Inr (HTTPException 400 NoAnalysisResults))
          else (case body of
                  JObject kvs \<Rightarrow>
                    (let nodes_to_remove = json_get kvs ''nodes'' (JArray [])
                     in if \<not> truthy nodes_to_remove
                        then (s, Inr (HTTPException 400 NoNodesSpecified))
                        else (s, bind_err (simulator G (latest_df s) results nodes_to_remove)
                                   (\<lambda>result. Inr (JSONResponse result))))
                | _ \<Rightarrow> (s, Inl AttributeError))
      | _ \<Rightarrow> (s, Inr (HTTPException 400 NoAnalysisResults)))"

section \<open>Notions of the specification\<close>

text \<open>An edge whose two qubit indices address one of \<open>n\<close> members.\<close>

definition in_range :: "nat \<Rightarrow> qedge \<Rightarrow> bool" where
  "in_range n e = (fst e < n \<and> snd e < n)"

text \<open>The cut value of a colouring: the number of edges whose ends have different colours.\<close>

definition cut_of :: "string \<Rightarrow> qedge list \<Rightarrow> int" where
  "cut_of bs edges = int (length (filter (\<lambda>e. bs ! fst e \<noteq> bs ! snd e) edges))"

text \<open>
  A sample is a 2-colouring: a key of the counts holds the characters \<open>0\<close> and \<open>1\<close>, and
  spaces between registers.
\<close>

definition is_bitstring :: "string \<Rightarrow> bool" where
  "is_bitstring s = list_all (\<lambda>c. c = CHR ''0'' \<or> c = CHR ''1'' \<or> c = CHR '' '') s"

definition binary_counts :: "counts \<Rightarrow> bool" where
  "binary_counts counts = list_all (\<lambda>item. is_bitstring (fst item)) counts"

text \<open>
  The samples by frequency, as the specification words it: \<open>ranked\<close> lists every sample of
  the counts once, a sample that was measured more often comes before one that was
  measured less often, and samples that were measured equally often keep the order they
  have in the counts.
\<close>

definition frequency_ranking :: "counts \<Rightarrow> counts \<Rightarrow> bool" where
  "frequency_ranking counts ranked =
     (mset ranked = mset counts \<and>
      sorted_wrt (\<lambda>a b. snd a \<ge> snd b) ranked \<and>
      list_all (\<lambda>c. filter (\<lambda>item. snd item = c) ranked
                     = filter (\<lambda>item. snd item = c) counts) (map snd counts))"

text \<open>
  The advantage percentage as the specification words it: \<open>best_cut\<close> is the highest cut
  value among the 20 most frequent samples, the first 20 of the samples by frequency.
\<close>

definition spec_best_cut :: "nat \<Rightarrow> qedge list \<Rightarrow> counts \<Rightarrow> int" where
  "spec_best_cut n edges ranked =
     Max ((\<lambda>item. cut_of (clean_bitstring n (fst item)) edges) ` set (take 20 ranked))"

definition spec_advantage_pct :: "int \<Rightarrow> int \<Rightarrow> nat \<Rightarrow> real" where
  "spec_advantage_pct best_cut classical_cut n_edges =
     py_round (of_int (best_cut - classical_cut) / of_nat (max n_edges 1) * 100) 2"

text \<open>
  A row of the file is retained when its sender and its receiver are there, its amount
  is numeric and its timestamp parses (the coercion has left a value at the index of the
  row); every other row is dropped.
\<close>

definition retained_row ::
  "frame \<Rightarrow> real option list \<Rightarrow> int option list \<Rightarrow> nat \<times> cell list \<Rightarrow> bool"
where
  "retained_row df nums stamps ir =
     (cell_at (snd ir) (column_position (columns df) ''sender_id'') \<noteq> None \<and>
      cell_at (snd ir) (column_position (columns df) ''receiver_id'') \<noteq> None \<and>
      cell_at nums (fst ir) \<noteq> None \<and>
      cell_at stamps (fst ir) \<noteq> None)"

text \<open>
  A retained row as a transaction: its cells, with the coerced amount and timestamp.
\<close>

definition retained_tx ::
  "frame \<Rightarrow> real option list \<Rightarrow> int option list \<Rightarrow> nat \<times> cell list \<Rightarrow> tx"
where
  "retained_tx df nums stamps ir =
     \<lparr>transaction_id = cell_at (snd ir) (column_position (columns df) ''transaction_id''),
      sender_id = the (cell_at (snd ir) (column_position (columns df) ''sender_id'')),
      receiver_id = the (cell_at (snd ir) (column_position (columns df) ''receiver_id'')),
      amount = the (cell_at nums (fst ir)),
      timestamp = the (cell_at stamps (fst ir))\<rparr>"

text \<open>
  The normalised header has every required column; it has the four columns that
  \<open>parse_csv\<close> reads as columns once each.
\<close>

definition has_required_columns :: "frame \<Rightarrow> bool" where
  "has_required_columns fr =
     list_all (\<lambda>col. col \<in> set (columns (normalise_columns fr))) REQUIRED_COLUMNS"

definition single_columns :: "frame \<Rightarrow> bool" where
  "single_columns fr =
     list_all (\<lambda>col. count_list (columns (normalise_columns fr)) col = 1)
       [''sender_id'', ''receiver_id'', ''amount'', ''timestamp'']"

section \<open>Example inputs\<close>

text \<open>The ring A \<open>\<rightarrow>\<close> B \<open>\<rightarrow>\<close> C \<open>\<rightarrow>\<close> D \<open>\<rightarrow>\<close> A with risk score 80, and a run of 1024 shots.\<close>

definition cycle4_members :: "string list" where
  "cycle4_members = [''A'', ''B'', ''C'', ''D'']"

definition cycle4 :: digraph where
  "cycle4 = \<lparr>graph_nodes = [''A'', ''B'', ''C'', ''D''],
             graph_edges = [(''A'', ''B''), (''B'', ''C''), (''C'', ''D''), (''D'', ''A'')]\<rparr>"

definition cycle4_edges :: "qedge list" where
  "cycle4_edges = [(0, 1), (1, 2), (2, 3), (3, 0)]"

definition cycle4_counts :: counts where
  "cycle4_counts = [(''0101'', 600), (''1010'', 400), (''0000'', 24)]"

text \<open>The same run as the backend may report it, the rarest sample first.\<close>

definition cycle4_unsorted_counts :: counts where
  "cycle4_unsorted_counts = [(''0000'', 24), (''0101'', 600), (''1010'', 400)]"

definition cycle4_result :: agent_result where
  "cycle4_result =
     \<lparr>ibm_quantum = True, hardware = ''simulator'', backend = ''aer_simulator'',
      ring_id = ''RING_001'', reason = None,
      quantum_scores = fill_scores [''B'', ''D''] (7786 / 100) [''A'', ''C''] 48,
      suspicious_set = [''B'', ''D''], quantum_advantage_pct = 100,
      detail = Some
        \<lparr>n_qubits = 4, shots = 2048, execution_time_seconds = 0,
         edges_analyzed = 4, best_bitstring = Some ''0101'',
         best_cut_value = 4, max_possible_cut = 4, cut_ratio = 1,
         group_0 = [''A'', ''C''], group_1 = [''B'', ''D''],
         classical_bitstring = ''0000'', classical_cut_value = 0,
         top_measurements =
           [\<lparr>m_bitstring = ''0101'', m_probability = 5859 / 10000,
               m_count = 600, m_cut_value = 4\<rparr>,
            \<lparr>m_bitstring = ''1010'', m_probability = 1953 / 5000,
               m_count = 400, m_cut_value = 4\<rparr>,
            \<lparr>m_bitstring = ''0000'', m_probability = 117 / 5000,
               m_count = 24, m_cut_value = 0\<rparr>],
         total_unique_bitstrings = 3\<rparr>\<rparr>"

text \<open>A graph with one self-transfer, as \<open>parse_csv\<close> builds it from a row A \<open>\<rightarrow>\<close> A.\<close>

definition self_loop_graph :: digraph where
  "self_loop_graph = \<lparr>graph_nodes = [''A''], graph_edges = [(''A'', ''A'')]\<rparr>"

text \<open>
  Nine accounts with no transfer among them; no IBM token, Qiskit and Aer installed.
\<close>

definition nine_members :: "string list" where
  "nine_members = [''A'', ''B'', ''C'', ''D'', ''E'', ''F'', ''G'', ''H'', ''I'']"

definition isolated9 :: digraph where
  "isolated9 = \<lparr>graph_nodes = nine_members, graph_edges = []\<rparr>"

definition nine_ring :: ring where
  "nine_ring = \<lparr>member_accounts = Some nine_members, ring_id_key = Some ''RING_009'',
                 risk_score = Some 80\<rparr>"

definition aer_only :: backends where
  "aer_only = \<lparr>ibm_connected = False, qiskit_available = True,
                best_backend = (\<lambda>n. None),
                ibm_job = (\<lambda>name n edges. Inl OtherError),
                aer_job = (\<lambda>n edges. Inl OtherError)\<rparr>"

text \<open>
  A pandas that reads four files: \<open>first.csv\<close> with one transfer A \<open>\<rightarrow>\<close> B,
  \<open>second.csv\<close> with a transfer B \<open>\<rightarrow>\<close> C, a row without sender and a row whose amount
  is the text \<open>n/a\<close>, \<open>header.csv\<close> with the header and no row, and \<open>dropped.csv\<close> with
  one row without receiver. Every other content has no header. It coerces the amounts
  and timestamps of these files.
\<close>

definition first_frame :: frame where
  "first_frame =
     \<lparr>columns = REQUIRED_COLUMNS,
      frame_rows =
        [[Some ''T1'', Some ''A'', Some ''B'', Some ''100'', Some ''2024-01-01 10:00:00'']]\<rparr>"

definition second_frame :: frame where
  "second_frame =
     \<lparr>columns = [''transaction_id'', '' sender_id'', ''receiver id'', ''amount'', ''timestamp''],
      frame_rows =
        [[Some ''T2'', Some ''B'', Some ''C'', Some ''250'', Some ''2024-01-02 10:00:00''],
         [Some ''T3'', None, Some ''C'', Some ''100'', Some ''2024-01-01 10:00:00''],
         [Some ''T4'', Some ''C'', Some ''A'', Some ''n/a'', Some ''2024-01-03 10:00:00'']]\<rparr>"

definition header_only_frame :: frame where
  "header_only_frame = \<lparr>columns = REQUIRED_COLUMNS, frame_rows = []\<rparr>"

definition dropped_frame :: frame where
  "dropped_frame =
     \<lparr>columns = REQUIRED_COLUMNS,
      frame_rows =
        [[Some ''T5'', Some ''A'', None, Some ''100'', Some ''2024-01-01 10:00:00'']]\<rparr>"

definition example_pandas :: pandas where
  "example_pandas =
     \<lparr>read_csv = (\<lambda>content.
        if content = ''first.csv'' then Inr first_frame
        else if content = ''second.csv'' then Inr second_frame
        else if content = ''header.csv'' then Inr header_only_frame
        else if content = ''dropped.csv'' then Inr dropped_frame
        else Inl (ValueError [])),
      to_numeric = (\<lambda>col. Inr (map (\<lambda>c. Option.bind c
        (map_of [(''100'', 100), (''250'', 250)])) col)),
      to_datetime = (\<lambda>col. Inr (map (\<lambda>c. Option.bind c
        (map_of [(''2024-01-01 10:00:00'', 1704103200000000000),
                 (''2024-01-02 10:00:00'', 1704189600000000000),
                 (''2024-01-03 10:00:00'', 1704276000000000000)])) col))\<rparr>"

text \<open>The rows that are retained of the first and of the second file.\<close>

definition first_df :: "tx list" where
  "first_df =
     [\<lparr>transaction_id = Some ''T1'', sender_id = ''A'', receiver_id = ''B'',
        amount = 100, timestamp = 1704103200000000000\<rparr>]"

definition second_df :: "tx list" where
  "second_df =
     [\<lparr>transaction_id = Some ''T2'', sender_id = ''B'', receiver_id = ''C'',
        amount = 250, timestamp = 1704189600000000000\<rparr>]"

text \<open>
  Agents that return the metadata as the final output, agents that fail, a final output
  that is logged and serialised, one whose serialisation fails, the state before any
  request, and a simulator that returns the nodes it was given.
\<close>

definition metadata_agents :: "tx list \<Rightarrow> tx_graph \<Rightarrow> metadata \<Rightarrow> py_error + metadata" where
  "metadata_agents df G md = Inr md"

definition failing_agents :: "tx list \<Rightarrow> tx_graph \<Rightarrow> metadata \<Rightarrow> py_error + metadata" where
  "failing_agents df G md = Inl OtherError"

definition respond_ok :: "metadata \<Rightarrow> py_error option" where
  "respond_ok final_output = None"

definition respond_fails :: "metadata \<Rightarrow> py_error option" where
  "respond_fails final_output = Some TypeError"

definition initial_state :: "metadata app_state" where
  "initial_state = \<lparr>latest_results = None, latest_graph = None, latest_df = None\<rparr>"

definition after_first :: "metadata app_state" where
  "after_first =
     fst (analyze_csv example_pandas metadata_agents respond_ok (Inr ''first.csv'') initial_state)"

definition echo_simulator ::
  "tx_graph \<Rightarrow> tx list option \<Rightarrow> metadata \<Rightarrow> json \<Rightarrow> py_error + json"
where
  "echo_simulator G df results nodes_to_remove = Inr nodes_to_remove"

definition failing_simulator ::
  "tx_graph \<Rightarrow> tx list option \<Rightarrow> metadata \<Rightarrow> json \<Rightarrow> py_error + json"
where
  "failing_simulator G df results nodes_to_remove = Inl OtherError"

section \<open>Auxiliary facts\<close>

subsection \<open>Sequencing of exceptions\<close>

lemma bind_err_Inr_iff:
  "bind_err m f = Inr y \<longleftrightarrow> (\<exists>x. m = Inr x \<and> f x = Inr y)"
  by (cases m) (simp_all add: bind_err_def)

lemma bind_err_Inr [simp]: "bind_err (Inr x) f = f x"
  by (simp add: bind_err_def)

lemma bind_err_Inl [simp]: "bind_err (Inl e) f = Inl e"
  by (simp add: bind_err_def)

subsection \<open>The greedy loop never leaves the all-zero partition\<close>

lemma greedy_cond_zeros_one:
  "in_range n e \<Longrightarrow> greedy_cond (replicate n 0) i (Suc 0) e = Inr False"
  by (simp add: greedy_cond_def in_range_def Let_def)

lemma greedy_count_zeros_one:
  "list_all (in_range n) edges \<Longrightarrow> greedy_count (replicate n 0) i (Suc 0) edges = Inr 0"
  by (induction edges) (simp_all add: greedy_cond_zeros_one)

lemma greedy_cond_zeros_zero:
  "in_range n e \<Longrightarrow> \<exists>c. greedy_cond (replicate n 0) i 0 e = Inr c"
  by (auto simp: greedy_cond_def in_range_def Let_def)

lemma greedy_count_zeros_zero:
  "list_all (in_range n) edges \<Longrightarrow> \<exists>k. greedy_count (replicate n 0) i 0 edges = Inr k"
proof (induction edges)
  case Nil
  then show ?case by simp
next
  case (Cons e es)
  then obtain k where k: "greedy_count (replicate n 0) i 0 es = Inr k" by auto
  from Cons.prems have "in_range n e" by simp
  then obtain c where c: "greedy_cond (replicate n 0) i 0 e = Inr c"
    using greedy_cond_zeros_zero by blast
  show ?case by (simp add: k c)
qed

lemma greedy_step_zeros:
  assumes "list_all (in_range n) edges"
  shows "greedy_step edges i (replicate n 0) = Inr (replicate n 0)"
proof -
  obtain k where k: "greedy_count (replicate n 0) i 0 edges = Inr k"
    using greedy_count_zeros_zero [OF assms] by auto
  have upd: "(replicate n (0::nat))[i := 0] = replicate n 0"
    by (cases "i < n") (auto intro!: nth_equalityI simp: nth_list_update)
  show ?thesis
    using greedy_count_zeros_one [OF assms, of i]
    by (simp add: greedy_step_def k upd)
qed

lemma greedy_loop_zeros:
  "list_all (in_range n) edges \<Longrightarrow> greedy_loop edges js (replicate n 0) = Inr (replicate n 0)"
  by (induction js) (simp_all add: greedy_step_zeros)

lemma maxcut_loop_const:
  "list_all (in_range n) edges \<Longrightarrow> maxcut_loop (replicate n c) edges k = Inr k"
  by (induction edges arbitrary: k) (auto simp: in_range_def)

lemma classical_greedy_all_zero:
  assumes "list_all (in_range n) edges"
  shows "classical_greedy_maxcut n edges = Inr (replicate n (CHR ''0''), 0)"
  using assms
  by (simp add: classical_greedy_maxcut_def greedy_loop_zeros compute_maxcut_value_def
      maxcut_loop_const bit_char_def)

subsection \<open>The three loops of the cost graph\<close>

lemma member_idx_fold:
  "fold (\<lambda>(i, acc) m. m(acc \<mapsto> i)) (enumerate k xs) m0 u = Some i \<Longrightarrow>
     (k \<le> i \<and> i < k + length xs \<and> xs ! (i - k) = u) \<or> m0 u = Some i"
proof (induction xs arbitrary: k m0)
  case Nil
  then show ?case by simp
next
  case (Cons x xs)
  from Cons.prems
  have "fold (\<lambda>(i, acc) m. m(acc \<mapsto> i)) (enumerate (Suc k) xs) (m0(x \<mapsto> k)) u = Some i"
    by (simp del: fun_upd_apply)
  from Cons.IH [OF this]
  show ?case
    by (auto simp: nth_Cons' Suc_diff_le split: if_splits)
qed

lemma member_idx_Some:
  "member_idx members u = Some i \<Longrightarrow> i < length members \<and> members ! i = u"
  unfolding member_idx_def by (drule member_idx_fold) simp

lemma induced_edges_set:
  "(i, j) \<in> set (induced_edges idx es) \<longleftrightarrow>
     (\<exists>u v. (u, v) \<in> set es \<and> idx u = Some i \<and> idx v = Some j)"
  by (induction idx es rule: induced_edges.induct) (auto split: option.splits)

lemma add_reverse_fold_set:
  "set (fold (\<lambda>(u, v) es. if (v, u) \<notin> set es then es @ [(v, u)] else es) xs acc)
     = set acc \<union> (\<lambda>(u, v). (v, u)) ` set xs"
  by (induction xs arbitrary: acc) (auto split: prod.splits)

lemma add_reverse_set: "set (add_reverse es) = set es \<union> (\<lambda>(u, v). (v, u)) ` set es"
  by (simp add: add_reverse_def add_reverse_fold_set)

lemma dedup_loop_distinct:
  "distinct (map edge_key unique) \<Longrightarrow> seen = set (map edge_key unique) \<Longrightarrow>
     distinct (map edge_key (dedup_loop es seen unique))"
  by (induction es seen unique rule: dedup_loop.induct) auto

lemma dedup_loop_subset:
  "set (dedup_loop es seen unique) \<subseteq> set unique \<union> set es"
  by (induction es seen unique rule: dedup_loop.induct) auto

lemma dedup_loop_keys:
  "seen = set (map edge_key unique) \<Longrightarrow>
     edge_key ` set (dedup_loop es seen unique) = edge_key ` set unique \<union> edge_key ` set es"
  by (induction es seen unique rule: dedup_loop.induct) auto

lemma edge_key_swap: "edge_key (v, u) = edge_key (u, v)"
  by (simp add: edge_key_def min.commute max.commute)

lemma get_graph_edges_distinct: "distinct (map edge_key (get_graph_edges members G))"
  by (simp add: get_graph_edges_def dedup_loop_distinct)

lemma get_graph_edges_subset:
  "set (get_graph_edges members G) \<subseteq>
     set (induced_edges (member_idx members) (graph_edges G))
     \<union> (\<lambda>(u, v). (v, u)) ` set (induced_edges (member_idx members) (graph_edges G))"
  using dedup_loop_subset [of "add_reverse (induced_edges (member_idx members) (graph_edges G))" "{}" "[]"]
  by (simp add: get_graph_edges_def add_reverse_set)

lemma get_graph_edges_keys:
  "edge_key ` set (get_graph_edges members G) =
     edge_key ` set (induced_edges (member_idx members) (graph_edges G))"
  by (auto simp: get_graph_edges_def dedup_loop_keys add_reverse_set edge_key_swap image_Un image_image split: prod.splits)

lemma get_graph_edges_in_range:
  "list_all (in_range (length members)) (get_graph_edges members G)"
proof -
  have "in_range (length members) e" if "e \<in> set (get_graph_edges members G)" for e
  proof -
    obtain i j where e: "e = (i, j)" by (cases e)
    from that get_graph_edges_subset [of members G]
    have "(i, j) \<in> set (induced_edges (member_idx members) (graph_edges G))
        \<or> (j, i) \<in> set (induced_edges (member_idx members) (graph_edges G))"
      by (auto simp: e)
    then show ?thesis
      by (auto simp: e in_range_def induced_edges_set dest: member_idx_Some)
  qed
  then show ?thesis by (simp add: list_all_iff)
qed

lemma get_graph_edges_self_loop:
  assumes "(i, i) \<in> set (get_graph_edges members G)"
  shows "\<exists>u. (u, u) \<in> set (graph_edges G) \<and> u \<in> set members"
proof -
  from assms get_graph_edges_subset [of members G]
  have "(i, i) \<in> set (induced_edges (member_idx members) (graph_edges G))"
    by auto
  then obtain u v where uv: "(u, v) \<in> set (graph_edges G)"
    "member_idx members u = Some i" "member_idx members v = Some i"
    by (auto simp: induced_edges_set)
  from uv(2,3) have "u = v" "i < length members" "members ! i = u"
    by (auto dest: member_idx_Some)
  with uv(1) show ?thesis by (metis nth_mem)
qed

subsection \<open>Cut values and the best sample\<close>

lemma maxcut_loop_value:
  "maxcut_loop bs es k = Inr c \<Longrightarrow> c = k + cut_of bs es"
  by (induction bs es k rule: maxcut_loop.induct) (auto simp: cut_of_def split: if_splits)

lemma compute_maxcut_value_eq:
  "compute_maxcut_value bs es = Inr c \<Longrightarrow> c = cut_of bs es"
  by (auto simp: compute_maxcut_value_def dest: maxcut_loop_value)

lemma cut_of_nonneg: "0 \<le> cut_of bs es"
  by (simp add: cut_of_def)

lemma best_loop_max:
  "best_loop n edges items best = Inr r \<Longrightarrow>
     snd r = Max (insert (snd best) ((\<lambda>item. cut_of (clean_bitstring n (fst item)) edges) ` set items))"
proof (induction items arbitrary: best)
  case Nil
  then show ?case by simp
next
  case (Cons item rest)
  let ?f = "\<lambda>item. cut_of (clean_bitstring n (fst item)) edges"
  from Cons.prems obtain c where
    c: "compute_maxcut_value (clean_bitstring n (fst item)) edges = Inr c" and
    r: "best_loop n edges rest (if snd best < c then (Some (clean_bitstring n (fst item)), c) else best) = Inr r"
    by (auto simp: bind_err_Inr_iff Let_def)
  have cv: "c = ?f item" using c by (rule compute_maxcut_value_eq)
  have "snd r = Max (insert (max (snd best) c) (?f ` set rest))"
    using Cons.IH [OF r] by (simp add: max_def split: if_splits)
  also have "\<dots> = Max (insert (snd best) (insert c (?f ` set rest)))"
    by (cases "rest = []") (simp_all add: max.assoc)
  finally show ?case by (simp add: cv)
qed

lemma best_loop_fst:
  "best_loop n edges items best = Inr r \<Longrightarrow>
     r = best \<or> (\<exists>item \<in> set items. fst r = Some (clean_bitstring n (fst item)))"
proof (induction items arbitrary: best)
  case Nil
  then show ?case by simp
next
  case (Cons item rest)
  from Cons.prems obtain c where
    r: "best_loop n edges rest (if snd best < c then (Some (clean_bitstring n (fst item)), c) else best) = Inr r"
    by (auto simp: bind_err_Inr_iff Let_def)
  from Cons.IH [OF r] show ?case by (auto split: if_splits)
qed

lemma best_loop_Some:
  assumes "best_loop n edges items (None, - 1) = Inr r" and "items \<noteq> []"
  shows "\<exists>item \<in> set items. fst r = Some (clean_bitstring n (fst item))"
proof -
  from assms(2) obtain item rest where items: "items = item # rest" by (cases items) auto
  from assms(1) obtain c where
    c: "compute_maxcut_value (clean_bitstring n (fst item)) edges = Inr c" and
    r: "best_loop n edges rest (if - 1 < c then (Some (clean_bitstring n (fst item)), c) else (None, - 1)) = Inr r"
    by (auto simp: items bind_err_Inr_iff Let_def)
  have "0 \<le> c" using compute_maxcut_value_eq [OF c] cut_of_nonneg by simp
  then have "best_loop n edges rest (Some (clean_bitstring n (fst item)), c) = Inr r"
    using r by simp
  from best_loop_fst [OF this] show ?thesis by (auto simp: items)
qed

subsection \<open>Cleaned bitstrings and the groups\<close>

lemma length_zfill: "length (zfill n s) = max n (length s)"
  by (auto simp: zfill_def split: list.splits)

lemma set_zfill: "set (zfill n s) \<subseteq> insert (CHR ''0'') (set s)"
  by (auto simp: zfill_def split: list.splits if_splits)

lemma length_clean_bitstring: "0 < n \<Longrightarrow> length (clean_bitstring n bs) = n"
  by (simp add: clean_bitstring_def last_chars_def length_zfill)

lemma set_clean_bitstring:
  "set (clean_bitstring n bs) \<subseteq> insert (CHR ''0'') (set bs - {CHR '' ''})"
proof -
  have "set (clean_bitstring n bs) \<subseteq> set (zfill n (filter (\<lambda>c. c \<noteq> CHR '' '') bs))"
    by (auto simp: clean_bitstring_def last_chars_def dest: in_set_dropD)
  also have "\<dots> \<subseteq> insert (CHR ''0'') (set (filter (\<lambda>c. c \<noteq> CHR '' '') bs))"
    by (rule set_zfill)
  finally show ?thesis by auto
qed

lemma select_group_set:
  assumes "select_group members (Some bs) ch = Inr g"
  shows "set g = {members ! i | i. i < length members \<and> bs ! i = ch}"
  using assms by (auto simp: select_group_def split: if_splits)

subsection \<open>What a return of \<open>_process_counts\<close> holds\<close>

lemma process_counts_Inr:
  assumes "process_counts counts members rid risk edges bn el hw sh = Inr r"
  obtains best g0 g1 classical tops dp where
    "best_loop (length members) edges (take 20 (sort_counts counts)) (None, - 1) = Inr best"
    "select_group members (fst best) (CHR ''0'') = Inr g0"
    "select_group members (fst best) (CHR ''1'') = Inr g1"
    "classical_greedy_maxcut (length members) edges = Inr classical"
    "dominant_prob_of (length members) (sum_list (map snd counts)) (fst best)
       (take 10 (sort_counts counts)) = Inr dp"
    "quantum_scores r = fill_scores (dominant_of g0 g1) (dominant_score risk dp)
       (minority_of g0 g1) (minority_score risk)"
    "suspicious_set r = dominant_of g0 g1"
    "quantum_advantage_pct r =
       py_round (of_int (snd best - snd classical) / of_nat (max (length edges) 1) * 100) 2"
    "\<exists>d. detail r = Some d \<and> group_0 d = g0 \<and> group_1 d = g1"
  using assms unfolding process_counts_def Let_def bind_err_Inr_iff
  by (elim exE conjE) (auto intro!: that)

lemma sort_counts_set [simp]: "set (sort_counts counts) = set counts"
  by (simp add: sort_counts_def)

lemma sort_counts_length [simp]: "length (sort_counts counts) = length counts"
  by (simp add: sort_counts_def)

text \<open>
  \<open>sorted(counts.items(), key=lambda x: -x[1])\<close> is the ranking of the samples by
  frequency, and the only one: Python's sort is stable.
\<close>

lemma frequency_ranking_sort_counts: "frequency_ranking counts (sort_counts counts)"
proof -
  let ?f = "\<lambda>item :: string \<times> nat. - int (snd item)"
  have "sorted (map ?f (sort_key ?f counts))" by (rule sorted_sort_key)
  then have s: "sorted_wrt (\<lambda>a b. snd a \<ge> snd b) (sort_key ?f counts)"
    by (simp add: sorted_map)
  have st: "filter (\<lambda>item. snd item = c) (sort_key ?f counts) = filter (\<lambda>item. snd item = c) counts"
    for c
    using sort_key_stable [of ?f "- int c" counts] by simp
  show ?thesis
    unfolding frequency_ranking_def sort_counts_def
    using s st by (simp add: list_all_iff)
qed

lemma frequency_ranking_unique:
  assumes "frequency_ranking counts ranked"
  shows "ranked = sort_counts counts"
proof -
  let ?f = "\<lambda>item :: string \<times> nat. - int (snd item)"
  from assms have m: "mset ranked = mset counts"
    and s: "sorted_wrt (\<lambda>a b. snd a \<ge> snd b) ranked"
    and st: "\<And>c. c \<in> snd ` set counts \<Longrightarrow>
       filter (\<lambda>item. snd item = c) ranked = filter (\<lambda>item. snd item = c) counts"
    by (auto simp add: frequency_ranking_def list_all_iff)
  have "sort_key ?f counts = ranked"
  proof (rule properties_for_sort_key)
    show "mset ranked = mset counts" by (rule m)
  next
    fix k assume "k \<in> set ranked"
    with m have "k \<in> set counts" by (metis set_mset_mset)
    then have "snd k \<in> snd ` set counts" by (rule imageI)
    from st [OF this]
    have "filter (\<lambda>item. snd item = snd k) ranked = filter (\<lambda>item. snd item = snd k) counts" .
    moreover have "(\<lambda>x. ?f k = ?f x) = (\<lambda>item. snd item = snd k)" by auto
    ultimately show "filter (\<lambda>x. ?f k = ?f x) ranked = filter (\<lambda>x. ?f k = ?f x) counts"
      by simp
  next
    from s show "sorted (map ?f ranked)" by (simp add: sorted_map)
  qed
  then show ?thesis by (simp add: sort_counts_def)
qed

subsection \<open>Scores and rounding\<close>

lemma fold_upd_const:
  "fold (\<lambda>acc m. m(acc \<mapsto> v)) xs m0 a = (if a \<in> set xs then Some v else m0 a)"
  by (induction xs arbitrary: m0) auto

lemma fill_scores_apply:
  "fill_scores dg ds mg ms a =
     (if a \<in> set mg then Some ms else if a \<in> set dg then Some ds else None)"
  by (simp add: fill_scores_def fold_upd_const)

lemma round_half_even_bounds: "\<lfloor>x\<rfloor> \<le> round_half_even x \<and> round_half_even x \<le> \<lfloor>x\<rfloor> + 1"
  by (simp add: round_half_even_def Let_def)

lemma round_half_even_mono:
  assumes "x \<le> y"
  shows "round_half_even x \<le> round_half_even y"
proof (cases "\<lfloor>x\<rfloor> = \<lfloor>y\<rfloor>")
  case True
  with assms show ?thesis
    by (auto simp: round_half_even_def Let_def)
next
  case False
  with assms have "\<lfloor>x\<rfloor> + 1 \<le> \<lfloor>y\<rfloor>"
    using floor_mono [of x y] by linarith
  with round_half_even_bounds [of x] round_half_even_bounds [of y] show ?thesis
    by linarith
qed

lemma py_round_mono: "x \<le> y \<Longrightarrow> py_round x d \<le> py_round y d"
  by (simp add: py_round_def divide_right_mono round_half_even_mono mult_right_mono)

lemma dominant_prob_of_nonneg:
  "dominant_prob_of n tot best_bs items = Inr p \<Longrightarrow> 0 \<le> p"
proof (induction items arbitrary: p)
  case Nil
  then show ?case by simp
next
  case (Cons item rest)
  show ?case
  proof (cases "Some (clean_bitstring n (fst item)) = best_bs")
    case True
    with Cons.prems obtain q s where
      q: "py_div (of_nat (snd item)) (of_nat tot) = Inr q" and
      s: "dominant_prob_of n tot best_bs rest = Inr s" and p: "p = q + s"
      by (auto simp: bind_err_Inr_iff)
    from q have "0 \<le> q" by (auto simp: py_div_def split: if_splits)
    with Cons.IH [OF s] p show ?thesis by simp
  next
    case False
    with Cons show ?thesis by simp
  qed
qed

lemma minority_le_dominant:
  "0 \<le> risk \<Longrightarrow> 0 \<le> dp \<Longrightarrow> minority_score risk \<le> dominant_score risk dp"
  unfolding minority_score_def dominant_score_def
  by (intro py_round_mono) (auto simp: min_def)

lemma clean_bitstring_binary:
  assumes "is_bitstring bs" and "c \<in> set (clean_bitstring n bs)"
  shows "c = CHR ''0'' \<or> c = CHR ''1''"
  using assms set_clean_bitstring [of n bs]
  by (auto simp: is_bitstring_def list_all_iff)

subsection \<open>When \<open>_process_counts\<close> returns\<close>

lemma maxcut_loop_returns:
  "list_all (in_range (length bs)) es \<Longrightarrow> \<exists>c. maxcut_loop bs es k = Inr c"
  by (induction bs es k rule: maxcut_loop.induct) (auto simp: in_range_def)

lemma compute_maxcut_value_returns:
  "list_all (in_range (length bs)) es \<Longrightarrow> \<exists>c. compute_maxcut_value bs es = Inr c"
  by (simp add: compute_maxcut_value_def maxcut_loop_returns)

lemma best_loop_returns:
  assumes "0 < n" and "list_all (in_range n) edges"
  shows "\<exists>r. best_loop n edges items best = Inr r"
proof (induction items arbitrary: best)
  case Nil
  then show ?case by simp
next
  case (Cons item rest)
  from assms obtain c where
    "compute_maxcut_value (clean_bitstring n (fst item)) edges = Inr c"
    using compute_maxcut_value_returns [of "clean_bitstring n (fst item)" edges]
    by (auto simp: length_clean_bitstring)
  with Cons.IH show ?case by (simp add: Let_def)
qed

lemma top_measurements_of_returns:
  assumes "0 < n" and "list_all (in_range n) edges" and "0 < tot"
  shows "\<exists>ms. top_measurements_of n edges tot items = Inr ms"
proof (induction items)
  case Nil
  then show ?case by simp
next
  case (Cons item rest)
  from assms obtain c where
    "compute_maxcut_value (clean_bitstring n (fst item)) edges = Inr c"
    using compute_maxcut_value_returns [of "clean_bitstring n (fst item)" edges]
    by (auto simp: length_clean_bitstring)
  with Cons.IH assms(3) show ?case by (auto simp: py_div_def)
qed

lemma dominant_prob_of_returns:
  "0 < tot \<Longrightarrow> \<exists>p. dominant_prob_of n tot best_bs items = Inr p"
  by (induction items) (auto simp: py_div_def)

lemma process_counts_returns:
  assumes "members \<noteq> []" and "counts \<noteq> []" and "0 < sum_list (map snd counts)"
    and "list_all (in_range (length members)) edges"
  shows "\<exists>r. process_counts counts members rid risk edges bn el hw sh = Inr r"
proof -
  let ?n = "length members"
  let ?items = "take 20 (sort_counts counts)"
  from assms(1) have n: "0 < ?n" by simp
  from best_loop_returns [OF n assms(4)] obtain best where
    best: "best_loop ?n edges ?items (None, - 1) = Inr best" by blast
  have "length ?items \<noteq> 0" using assms(2) by simp
  then have "?items \<noteq> []" by fastforce
  from best_loop_Some [OF best this] obtain item where
    "item \<in> set ?items" and bs: "fst best = Some (clean_bitstring ?n (fst item))" by blast
  have g: "\<exists>g. select_group members (fst best) ch = Inr g" for ch
    using n by (simp add: select_group_def bs length_clean_bitstring)
  from g obtain g0 where g0: "select_group members (fst best) (CHR ''0'') = Inr g0" by blast
  from g obtain g1 where g1: "select_group members (fst best) (CHR ''1'') = Inr g1" by blast
  from top_measurements_of_returns [OF n assms(4) assms(3)] obtain tops where
    tops: "top_measurements_of ?n edges (sum_list (map snd counts))
      (take 8 (sort_counts counts)) = Inr tops" by blast
  from dominant_prob_of_returns [OF assms(3)] obtain dp where
    dp: "dominant_prob_of ?n (sum_list (map snd counts)) (fst best)
      (take 10 (sort_counts counts)) = Inr dp" by blast
  show ?thesis
    by (simp add: process_counts_def Let_def best g0 g1 tops dp
        classical_greedy_all_zero [OF assms(4)])
qed

lemma process_counts_has_samples:
  assumes "process_counts counts members rid risk edges bn el hw sh = Inr r"
    and "members \<noteq> []"
  shows "counts \<noteq> []"
proof
  assume "counts = []"
  with assms(1) obtain g0 where "select_group members None (CHR ''0'') = Inr g0"
    by (auto simp: process_counts_def Let_def bind_err_Inr_iff sort_counts_def)
  with assms(2) show False by (simp add: select_group_def)
qed

subsection \<open>Cost graphs without edges\<close>

lemma member_idx_fold_dom:
  "dom (fold (\<lambda>(i, acc) m. m(acc \<mapsto> i)) (enumerate k xs) m0) = dom m0 \<union> set xs"
  by (induction xs arbitrary: k m0) auto

lemma member_idx_dom: "dom (member_idx members) = set members"
  by (simp add: member_idx_def member_idx_fold_dom)

lemma member_idx_None_iff: "member_idx members u = None \<longleftrightarrow> u \<notin> set members"
  using member_idx_dom [of members] by (metis domIff)

lemma induced_edges_Nil_iff:
  "induced_edges idx es = [] \<longleftrightarrow> (\<forall>(u, v) \<in> set es. idx u = None \<or> idx v = None)"
  by (induction idx es rule: induced_edges.induct) (auto split: option.splits)

lemma get_graph_edges_Nil_iff:
  "get_graph_edges members G = [] \<longleftrightarrow>
     (\<forall>(u, v) \<in> set (graph_edges G). u \<notin> set members \<or> v \<notin> set members)"
proof -
  let ?ind = "induced_edges (member_idx members) (graph_edges G)"
  have "get_graph_edges members G = [] \<longleftrightarrow> edge_key ` set (get_graph_edges members G) = {}"
    by simp
  also have "\<dots> \<longleftrightarrow> ?ind = []"
    by (simp add: get_graph_edges_keys)
  also have "\<dots> \<longleftrightarrow> (\<forall>(u, v) \<in> set (graph_edges G). u \<notin> set members \<or> v \<notin> set members)"
    by (simp add: induced_edges_Nil_iff member_idx_None_iff)
  finally show ?thesis .
qed

lemma get_graph_edges_take_Nil:
  assumes "get_graph_edges (take m members) G = []" and "k \<le> m"
  shows "get_graph_edges (take k members) G = []"
proof -
  have "set (take k members) \<subseteq> set (take m members)"
    using assms(2) by (metis set_take_subset_set_take)
  with assms(1) show ?thesis
    unfolding get_graph_edges_Nil_iff by fastforce
qed

section \<open>The example ring\<close>

lemma cycle4_get_graph_edges: "get_graph_edges cycle4_members cycle4 = cycle4_edges"
  by (simp add: get_graph_edges_def cycle4_members_def cycle4_def cycle4_edges_def
      member_idx_def add_reverse_def edge_key_def enumerate_eq_zip upt_rec)

lemma cycle4_sorted: "sort_counts cycle4_counts = cycle4_counts"
  by (simp add: sort_counts_def cycle4_counts_def)

lemma cycle4_greedy: "classical_greedy_maxcut 4 cycle4_edges = Inr (''0000'', 0)"
proof -
  have "list_all (in_range 4) cycle4_edges"
    by (simp add: cycle4_edges_def in_range_def)
  from classical_greedy_all_zero [OF this] show ?thesis
    by (simp add: numeral_eq_Suc)
qed

lemma cycle4_process_counts:
  "process_counts cycle4_counts cycle4_members ''RING_001'' 80 cycle4_edges
     ''aer_simulator'' 0 ''simulator'' 2048 = Inr cycle4_result"
  unfolding process_counts_def cycle4_sorted
  by (simp add: classical_greedy_all_zero in_range_def cycle4_members_def
      cycle4_counts_def cycle4_edges_def cycle4_result_def
      compute_maxcut_value_def clean_bitstring_def zfill_def last_chars_def
      select_group_def upt_rec py_div_def py_round_def round_half_even_def Let_def
      dominant_of_def minority_of_def dominant_score_def minority_score_def)

lemma cycle4_unsorted_sorted: "sort_counts cycle4_unsorted_counts = cycle4_counts"
  by (simp add: sort_counts_def cycle4_unsorted_counts_def cycle4_counts_def)

lemma cycle4_ranking: "frequency_ranking cycle4_unsorted_counts cycle4_counts"
  by (simp add: frequency_ranking_def cycle4_unsorted_counts_def cycle4_counts_def)

lemma cycle4_unsorted_process_counts:
  "process_counts cycle4_unsorted_counts cycle4_members ''RING_001'' 80 cycle4_edges
     ''aer_simulator'' 0 ''simulator'' 2048 = Inr cycle4_result"
  unfolding process_counts_def cycle4_unsorted_sorted
  by (simp add: classical_greedy_all_zero in_range_def cycle4_members_def
      cycle4_counts_def cycle4_unsorted_counts_def cycle4_edges_def cycle4_result_def
      compute_maxcut_value_def clean_bitstring_def zfill_def last_chars_def
      select_group_def upt_rec py_div_def py_round_def round_half_even_def Let_def
      dominant_of_def minority_of_def dominant_score_def minority_score_def)

section \<open>The cost graph\<close>

text \<open>
  Claim C7, as stated, fails: \<open>_get_graph_edges\<close> has no test for \<open>u == v\<close>, so a
  self-transfer of a member becomes the edge \<open>(0, 0)\<close> of the cost graph.
\<close>

theorem get_graph_edges_self_loop_counterexample:
  "get_graph_edges [''A''] self_loop_graph = [(0, 0)]"
  by (simp add: get_graph_edges_def self_loop_graph_def member_idx_def add_reverse_def
      edge_key_def enumerate_eq_zip)

text \<open>
  Claim C7, amended. The edge list is deduplicated as a set of unordered pairs: no pair
  \<open>(min e, max e)\<close> occurs twice, and the pairs are those of the edges of \<open>G\<close> between
  two members. It has no edge \<open>(i, i)\<close> when \<open>G\<close> has no self-loop on a member.
\<close>

theorem get_graph_edges_deduplicated:
  "distinct (map edge_key (get_graph_edges members G)) \<and>
   edge_key ` set (get_graph_edges members G)
     = edge_key ` set (induced_edges (member_idx members) (graph_edges G)) \<and>
   (list_all (\<lambda>e. fst e \<noteq> snd e \<or> fst e \<notin> set members) (graph_edges G) \<longrightarrow>
      list_all (\<lambda>e. fst e \<noteq> snd e) (get_graph_edges members G))"
proof -
  have "list_all (\<lambda>e. fst e \<noteq> snd e) (get_graph_edges members G)"
    if h: "list_all (\<lambda>e. fst e \<noteq> snd e \<or> fst e \<notin> set members) (graph_edges G)"
  proof -
    have "fst e \<noteq> snd e" if "e \<in> set (get_graph_edges members G)" for e
    proof
      assume "fst e = snd e"
      with that have "(fst e, fst e) \<in> set (get_graph_edges members G)"
        by (metis prod.collapse)
      from get_graph_edges_self_loop [OF this] obtain u where
        "(u, u) \<in> set (graph_edges G)" "u \<in> set members" by auto
      with h show False by (auto simp: list_all_iff)
    qed
    then show ?thesis by (simp add: list_all_iff)
  qed
  then show ?thesis
    by (simp add: get_graph_edges_distinct get_graph_edges_keys)
qed

theorem get_graph_edges_deduplicated_witness:
  "list_all (\<lambda>e. fst e \<noteq> snd e \<or> fst e \<notin> set cycle4_members) (graph_edges cycle4) \<and>
   distinct (map edge_key (get_graph_edges cycle4_members cycle4)) \<and>
   list_all (\<lambda>e. fst e \<noteq> snd e) (get_graph_edges cycle4_members cycle4)"
proof -
  have h: "list_all (\<lambda>e. fst e \<noteq> snd e \<or> fst e \<notin> set cycle4_members) (graph_edges cycle4)"
    by (simp add: cycle4_def)
  from get_graph_edges_deduplicated [of cycle4_members cycle4] h show ?thesis by simp
qed

section \<open>The greedy baseline\<close>

text \<open>
  Claim C1. On the ring A \<open>\<rightarrow>\<close> B \<open>\<rightarrow>\<close> C \<open>\<rightarrow>\<close> D \<open>\<rightarrow>\<close> A the code does not reach the cut 4:
  \<open>_classical_greedy_maxcut\<close> returns the partition \<open>0000\<close> with cut value 0 (by
  \<open>classical_greedy_all_zero\<close> it does so on every cost graph, since \<open>cuts_1\<close> counts the
  neighbours already in partition 1 and there are none), so a best sample that cuts all
  4 edges gives the advantage 100, not 0.
\<close>

theorem greedy_baseline_cycle4:
  "classical_greedy_maxcut 4 (get_graph_edges cycle4_members cycle4) = Inr (''0000'', 0) \<and>
   process_counts cycle4_counts cycle4_members ''RING_001'' 80
     (get_graph_edges cycle4_members cycle4) ''aer_simulator'' 0 ''simulator'' 2048
     = Inr cycle4_result \<and>
   best_bitstring (the (detail cycle4_result)) = Some ''0101'' \<and>
   best_cut_value (the (detail cycle4_result)) = 4 \<and>
   classical_cut_value (the (detail cycle4_result)) = 0 \<and>
   quantum_advantage_pct cycle4_result = 100"
  by (simp add: cycle4_get_graph_edges cycle4_greedy cycle4_process_counts)
     (simp add: cycle4_result_def)

section \<open>The partition confidence engine\<close>

text \<open>
  Claim C3. When \<open>_process_counts\<close> returns for a ring (its member ids distinct) and
  samples that are 2-colourings, the groups \<open>group_0\<close> and \<open>group_1\<close> it returns are
  disjoint and their union is the set of the members it was given: the capped member
  list that the bitstrings colour.
\<close>

theorem partition_groups_disjoint_exhaustive:
  assumes "process_counts counts members rid risk edges bn el hw sh = Inr r"
    and "distinct members"
    and "binary_counts counts"
  shows "\<exists>d. detail r = Some d \<and>
           set (group_0 d) \<inter> set (group_1 d) = {} \<and>
           set (group_0 d) \<union> set (group_1 d) = set members"
proof -
  let ?n = "length members"
  from assms(1) obtain best g0 g1 where
    best: "best_loop ?n edges (take 20 (sort_counts counts)) (None, - 1) = Inr best" and
    g0: "select_group members (fst best) (CHR ''0'') = Inr g0" and
    g1: "select_group members (fst best) (CHR ''1'') = Inr g1" and
    d: "\<exists>d. detail r = Some d \<and> group_0 d = g0 \<and> group_1 d = g1"
    by (rule process_counts_Inr)
  have "set g0 \<inter> set g1 = {} \<and> set g0 \<union> set g1 = set members"
  proof (cases "members = []")
    case True
    with g0 g1 show ?thesis by (simp add: select_group_def)
  next
    case False
    with g0 obtain bs where bs: "fst best = Some bs"
      by (cases "fst best") (auto simp: select_group_def)
    then have "best \<noteq> (None, - 1)" by auto
    with best_loop_fst [OF best] bs obtain item where
      item: "item \<in> set (take 20 (sort_counts counts))" and
      clean: "bs = clean_bitstring ?n (fst item)"
      by auto
    from item have "item \<in> set counts"
      using set_take_subset [of 20 "sort_counts counts"] by auto
    with assms(3) have bits: "is_bitstring (fst item)"
      by (simp add: binary_counts_def list_all_iff)
    from False have len: "length bs = ?n"
      by (simp add: clean length_clean_bitstring)
    have bin: "bs ! i = CHR ''0'' \<or> bs ! i = CHR ''1''" if "i < ?n" for i
      using clean_bitstring_binary [OF bits, of "bs ! i" ?n] that len
      by (simp add: clean [symmetric])
    have s0: "set g0 = {members ! i | i. i < ?n \<and> bs ! i = CHR ''0''}"
      using g0 unfolding bs by (rule select_group_set)
    have s1: "set g1 = {members ! i | i. i < ?n \<and> bs ! i = CHR ''1''}"
      using g1 unfolding bs by (rule select_group_set)
    have disj: "set g0 \<inter> set g1 = {}"
      using assms(2) by (auto simp: s0 s1 nth_eq_iff_index_eq)
    have "set g0 \<union> set g1 = {members ! i | i. i < ?n}"
      using bin by (auto simp: s0 s1)
    also have "\<dots> = set members"
      by (simp add: set_conv_nth)
    finally show ?thesis using disj by simp
  qed
  with d show ?thesis by auto
qed

theorem partition_groups_witness:
  "distinct cycle4_members \<and> binary_counts cycle4_counts \<and>
   process_counts cycle4_counts cycle4_members ''RING_001'' 80 cycle4_edges
     ''aer_simulator'' 0 ''simulator'' 2048 = Inr cycle4_result \<and>
   (\<exists>d. detail cycle4_result = Some d \<and>
        set (group_0 d) \<inter> set (group_1 d) = {} \<and>
        set (group_0 d) \<union> set (group_1 d) = set cycle4_members)"
proof -
  have h1: "distinct cycle4_members" by (simp add: cycle4_members_def)
  have h2: "binary_counts cycle4_counts"
    by (simp add: binary_counts_def cycle4_counts_def is_bitstring_def)
  from partition_groups_disjoint_exhaustive [OF cycle4_process_counts h1 h2] h1 h2
    cycle4_process_counts
  show ?thesis by simp
qed

text \<open>
  Claim C4. When \<open>_process_counts\<close> returns and the risk score is not negative, the score
  of every account of the dominant group is at least the score of every account of the
  minority group.
\<close>

theorem dominant_score_ge_minority_score:
  assumes "process_counts counts members rid risk edges bn el hw sh = Inr r"
    and "0 \<le> risk"
    and "detail r = Some d"
    and "a \<in> set (dominant_of (group_0 d) (group_1 d))"
    and "b \<in> set (minority_of (group_0 d) (group_1 d))"
  shows "\<exists>x y. quantum_scores r a = Some x \<and> quantum_scores r b = Some y \<and> y \<le> x"
proof -
  from assms(1) obtain best :: "string option \<times> int" and g0 g1 dp where
    dp: "dominant_prob_of (length members) (sum_list (map snd counts)) (fst best)
       (take 10 (sort_counts counts)) = Inr dp" and
    qs: "quantum_scores r = fill_scores (dominant_of g0 g1) (dominant_score risk dp)
       (minority_of g0 g1) (minority_score risk)" and
    d: "\<exists>d. detail r = Some d \<and> group_0 d = g0 \<and> group_1 d = g1"
    by (rule process_counts_Inr)
  from d assms(3) have g: "group_0 d = g0" "group_1 d = g1" by auto
  have le: "minority_score risk \<le> dominant_score risk dp"
    using assms(2) dominant_prob_of_nonneg [OF dp] by (rule minority_le_dominant)
  from assms(4,5) le show ?thesis
    by (simp add: qs fill_scores_apply g)
qed

theorem dominant_score_witness:
  "process_counts cycle4_counts cycle4_members ''RING_001'' 80 cycle4_edges
     ''aer_simulator'' 0 ''simulator'' 2048 = Inr cycle4_result \<and>
   (0::real) \<le> 80 \<and>
   ''B'' \<in> set (dominant_of [''A'', ''C''] [''B'', ''D'']) \<and>
   ''A'' \<in> set (minority_of [''A'', ''C''] [''B'', ''D'']) \<and>
   (\<exists>x y. quantum_scores cycle4_result ''B'' = Some x \<and>
          quantum_scores cycle4_result ''A'' = Some y \<and> y \<le> x)"
proof -
  let ?d = "the (detail cycle4_result)"
  have d: "detail cycle4_result = Some ?d" by (simp add: cycle4_result_def)
  have g: "group_0 ?d = [''A'', ''C'']" "group_1 ?d = [''B'', ''D'']"
    by (simp_all add: cycle4_result_def)
  have a: "''B'' \<in> set (dominant_of (group_0 ?d) (group_1 ?d))"
    by (simp add: g dominant_of_def)
  have b: "''A'' \<in> set (minority_of (group_0 ?d) (group_1 ?d))"
    by (simp add: g minority_of_def)
  have r: "(0::real) \<le> 80" by simp
  from dominant_score_ge_minority_score [OF cycle4_process_counts r d a b] a b
    cycle4_process_counts
  show ?thesis by (simp add: g)
qed

text \<open>
  Claim C5. When \<open>_process_counts\<close> returns for at least one sample (by
  \<open>process_counts_has_samples\<close> it returns for no other input when the ring has a
  member), the advantage
  percentage it returns is \<open>round((best_cut - classical_cut) / max(total_edges, 1) * 100, 2)\<close>,
  with \<open>best_cut\<close> the highest cut value among the 20 most frequent samples (the first
  20 of any list \<open>ranked\<close> that ranks the samples by frequency, equally frequent samples
  in the order of the counts), \<open>classical_cut\<close> the cut value that
  \<open>_classical_greedy_maxcut\<close> returns and \<open>total_edges\<close> the number of edges of the cost
  graph.
\<close>

theorem advantage_pct_formula:
  assumes "process_counts counts members rid risk edges bn el hw sh = Inr r"
    and "counts \<noteq> []"
    and "frequency_ranking counts ranked"
  shows "\<exists>cbs ccut. classical_greedy_maxcut (length members) edges = Inr (cbs, ccut) \<and>
           quantum_advantage_pct r =
             spec_advantage_pct (spec_best_cut (length members) edges ranked) ccut (length edges)"
proof -
  let ?n = "length members"
  let ?items = "take 20 (sort_counts counts)"
  have ranked: "ranked = sort_counts counts"
    using assms(3) by (rule frequency_ranking_unique)
  let ?f = "\<lambda>item. cut_of (clean_bitstring ?n (fst item)) edges"
  from assms(1) obtain best classical where
    best: "best_loop ?n edges ?items (None, - 1) = Inr best" and
    cl: "classical_greedy_maxcut ?n edges = Inr classical" and
    adv: "quantum_advantage_pct r =
       py_round (of_int (snd best - snd classical) / of_nat (max (length edges) 1) * 100) 2"
    by (rule process_counts_Inr)
  have "length ?items \<noteq> 0" using assms(2) by simp
  then have ne: "?items \<noteq> []" by fastforce
  have "snd best = Max (insert (- 1) (?f ` set ?items))"
    using best_loop_max [OF best] by simp
  also have "\<dots> = max (- 1) (Max (?f ` set ?items))"
    using ne by (subst Max_insert) auto
  also have "\<dots> = Max (?f ` set ?items)"
  proof -
    from ne obtain item where "item \<in> set ?items" by (cases ?items) auto
    then have "?f item \<le> Max (?f ` set ?items)" by (intro Max_ge) auto
    with cut_of_nonneg [of "clean_bitstring ?n (fst item)" edges] show ?thesis by simp
  qed
  finally have "snd best = spec_best_cut ?n edges ranked"
    by (simp add: spec_best_cut_def ranked)
  with adv cl show ?thesis
    by (cases classical) (simp add: spec_advantage_pct_def)
qed

theorem advantage_pct_witness:
  "cycle4_unsorted_counts \<noteq> [] \<and>
   frequency_ranking cycle4_unsorted_counts cycle4_counts \<and>
   process_counts cycle4_unsorted_counts cycle4_members ''RING_001'' 80 cycle4_edges
     ''aer_simulator'' 0 ''simulator'' 2048 = Inr cycle4_result \<and>
   classical_greedy_maxcut (length cycle4_members) cycle4_edges = Inr (''0000'', 0) \<and>
   quantum_advantage_pct cycle4_result =
     spec_advantage_pct (spec_best_cut (length cycle4_members) cycle4_edges cycle4_counts) 0
       (length cycle4_edges)"
proof -
  have ne: "cycle4_unsorted_counts \<noteq> []" by (simp add: cycle4_unsorted_counts_def)
  have len: "length cycle4_members = 4" by (simp add: cycle4_members_def)
  from advantage_pct_formula [OF cycle4_unsorted_process_counts ne cycle4_ranking]
    ne cycle4_ranking cycle4_unsorted_process_counts
  show ?thesis by (simp add: len cycle4_greedy)
qed

section \<open>The fallback chain\<close>

text \<open>
  \<open>run\<close> returns a result on every input: each exception of a backend is caught where
  the source catches it. The fallback result gives the members it is built from the
  score 50 and the advantage 0. A result without the keys of \<open>_process_counts\<close> is a
  fallback result, built from all members or from the first \<open>MAX_QUBITS_SIM\<close> of them;
  \<open>run\<close> returns it when there are fewer than two members, when the cost graph has no
  edge, and when both backends fail.
\<close>

lemma run_returns: "\<exists>r. run env G top_ring = Inr r"
  by (simp add: run_def Let_def split: option.splits)

lemma fallback_result_scores:
  "a \<in> set members \<Longrightarrow> quantum_scores (fallback_result rid members why) a = Some 50"
  by (simp add: fallback_result_def fold_upd_const)

lemma fallback_result_scores_None:
  "a \<notin> set members \<Longrightarrow> quantum_scores (fallback_result rid members why) a = None"
  by (simp add: fallback_result_def fold_upd_const)

lemma fallback_result_advantage: "quantum_advantage_pct (fallback_result rid members why) = 0"
  by (simp add: fallback_result_def)

lemma run_insufficient_members:
  assumes "member_accounts top_ring = Some members" and "length members < 2"
  shows "run env G top_ring =
           Inr (fallback_result (case ring_id_key top_ring of None \<Rightarrow> ''RING_001'' | Some i \<Rightarrow> i)
                  members ''insufficient_members'')"
  using assms by (simp add: run_def Let_def)

lemma run_on_ibm_no_edges:
  "get_graph_edges members G = [] \<Longrightarrow> run_on_ibm env G members rid risk = None"
  by (simp add: run_on_ibm_def)

lemma run_on_aer_no_edges:
  "get_graph_edges members G = [] \<Longrightarrow>
     run_on_aer env G members rid risk = fallback_result rid members ''no_edges''"
  by (simp add: run_on_aer_def)

lemma run_on_aer_shape:
  "detail (run_on_aer env G members rid risk) = None \<Longrightarrow>
     \<exists>why. run_on_aer env G members rid risk = fallback_result rid members why"
proof (cases "get_graph_edges members G = []")
  case True
  then show ?thesis by (auto simp: run_on_aer_no_edges)
next
  case False
  assume none: "detail (run_on_aer env G members rid risk) = None"
  let ?job = "bind_err (aer_job env (length members) (get_graph_edges members G)) (\<lambda>job.
      process_counts (fst job) members rid risk (get_graph_edges members G) ''aer_simulator''
        (snd job) ''simulator'' SHOTS_SIM)"
  show ?thesis
  proof (cases ?job)
    case (Inl e)
    with False show ?thesis by (auto simp: run_on_aer_def Let_def)
  next
    case (Inr r)
    with False have r: "run_on_aer env G members rid risk = r"
      by (simp add: run_on_aer_def Let_def)
    from Inr obtain job where
      "process_counts (fst job) members rid risk (get_graph_edges members G) ''aer_simulator''
        (snd job) ''simulator'' SHOTS_SIM = Inr r"
      by (auto simp: bind_err_Inr_iff)
    then have "\<exists>d. detail r = Some d"
      by (rule process_counts_Inr) blast
    with none r show ?thesis by simp
  qed
qed

lemma run_on_ibm_detail:
  "run_on_ibm env G members rid risk = Some r \<Longrightarrow> \<exists>d. detail r = Some d"
  unfolding run_on_ibm_def Let_def
  by (auto split: if_splits option.splits sum.splits simp: bind_err_Inr_iff
      elim!: process_counts_Inr)

lemma run_fallback_shape:
  assumes "run env G top_ring = Inr r" and "detail r = None"
  shows "\<exists>rid ms why. r = fallback_result rid ms why \<and>
           (ms = (case member_accounts top_ring of None \<Rightarrow> [] | Some ms \<Rightarrow> ms) \<or>
            ms = take MAX_QUBITS_SIM
                   (case member_accounts top_ring of None \<Rightarrow> [] | Some ms \<Rightarrow> ms))"
proof -
  let ?members = "case member_accounts top_ring of None \<Rightarrow> [] | Some ms \<Rightarrow> ms"
  let ?rid = "case ring_id_key top_ring of None \<Rightarrow> ''RING_001'' | Some i \<Rightarrow> i"
  let ?risk = "case risk_score top_ring of None \<Rightarrow> 50 | Some x \<Rightarrow> x"
  let ?ibm = "if ibm_connected env
    then run_on_ibm env G (take MAX_QUBITS_REAL ?members) ?rid ?risk else None"
  show ?thesis
  proof (cases "length ?members < 2")
    case True
    with assms(1) show ?thesis by (auto simp: run_def Let_def)
  next
    case False
    show ?thesis
    proof (cases ?ibm)
      case (Some res)
      with False assms(1) have "r = res" by (simp add: run_def Let_def)
      moreover from Some have "\<exists>d. detail res = Some d"
        by (auto split: if_splits dest: run_on_ibm_detail)
      ultimately show ?thesis using assms(2) by simp
    next
      case None
      show ?thesis
      proof (cases "qiskit_available env")
        case True
        with None False assms(1)
        have r: "r = run_on_aer env G (take MAX_QUBITS_SIM ?members) ?rid ?risk"
          by (simp add: run_def Let_def)
        with assms(2) run_on_aer_shape [of env G "take MAX_QUBITS_SIM ?members" ?rid ?risk]
        show ?thesis by auto
      next
        case q: False
        with None False assms(1) show ?thesis by (auto simp: run_def Let_def)
      qed
    qed
  qed
qed

lemma run_no_edges:
  assumes "member_accounts top_ring = Some members" and "2 \<le> length members"
    and "get_graph_edges (take MAX_QUBITS_SIM members) G = []"
  shows "run env G top_ring =
           Inr (if qiskit_available env
                then fallback_result (case ring_id_key top_ring of None \<Rightarrow> ''RING_001'' | Some i \<Rightarrow> i)
                       (take MAX_QUBITS_SIM members) ''no_edges''
                else fallback_result (case ring_id_key top_ring of None \<Rightarrow> ''RING_001'' | Some i \<Rightarrow> i)
                       members ''qiskit_unavailable'')"
proof -
  have "get_graph_edges (take MAX_QUBITS_REAL members) G = []"
    using assms(3) by (rule get_graph_edges_take_Nil)
       (simp add: MAX_QUBITS_REAL_def MAX_QUBITS_SIM_def)
  with assms show ?thesis
    by (simp add: run_def Let_def run_on_ibm_no_edges run_on_aer_no_edges)
qed

lemma run_backends_fail:
  assumes "member_accounts top_ring = Some members" and "2 \<le> length members"
    and "\<And>name n edges. \<exists>e. ibm_job env name n edges = Inl e"
    and "\<And>n edges. \<exists>e. aer_job env n edges = Inl e"
  shows "\<exists>why. run env G top_ring =
           Inr (fallback_result (case ring_id_key top_ring of None \<Rightarrow> ''RING_001'' | Some i \<Rightarrow> i)
                  (if qiskit_available env then take MAX_QUBITS_SIM members else members) why)"
proof -
  have ibm: "run_on_ibm env G ms rid risk = None" for ms rid risk
  proof (cases "best_backend env (length ms)")
    case None
    then show ?thesis by (simp add: run_on_ibm_def Let_def)
  next
    case (Some name)
    from assms(3) obtain e where
      "ibm_job env name (length ms) (get_graph_edges ms G) = Inl e" by blast
    with Some show ?thesis by (simp add: run_on_ibm_def Let_def)
  qed
  have aer: "\<exists>why. run_on_aer env G ms rid risk = fallback_result rid ms why" for ms rid risk
  proof -
    from assms(4) obtain e where
      "aer_job env (length ms) (get_graph_edges ms G) = Inl e" by blast
    then show ?thesis by (auto simp: run_on_aer_def Let_def)
  qed
  from assms(1,2) ibm aer [of "take MAX_QUBITS_SIM members"] show ?thesis
    by (auto simp: run_def Let_def)
qed

lemma isolated9_edges: "get_graph_edges ms isolated9 = []"
  by (simp add: get_graph_edges_def isolated9_def add_reverse_def)

text \<open>
  Claim C6. On a ring of nine members without edges, with Qiskit installed and no IBM
  token, \<open>run\<close> returns the fallback result of \<open>_run_on_aer\<close>, which is built from the
  first 8 members only: the ninth member has no score. (The fallback results built in
  \<open>run\<close> itself are built from all members.)
\<close>

theorem run_no_edges_nine_members:
  "run aer_only isolated9 nine_ring
     = Inr (fallback_result ''RING_009'' (take 8 nine_members) ''no_edges'') \<and>
   ''I'' \<in> set nine_members \<and>
   quantum_scores (fallback_result ''RING_009'' (take 8 nine_members) ''no_edges'') ''I'' = None \<and>
   quantum_scores (fallback_result ''RING_009'' (take 8 nine_members) ''no_edges'') ''H'' = Some 50"
proof -
  have "run aer_only isolated9 nine_ring
      = Inr (fallback_result ''RING_009'' (take 8 nine_members) ''no_edges'')"
    by (simp add: run_def nine_ring_def aer_only_def MAX_QUBITS_SIM_def
        run_on_aer_def isolated9_edges nine_members_def)
  moreover have "''I'' \<notin> set (take 8 nine_members)" "''H'' \<in> set (take 8 nine_members)"
    "''I'' \<in> set nine_members"
    by (simp_all add: nine_members_def)
  ultimately show ?thesis
    by (simp add: fallback_result_scores fallback_result_scores_None)
qed

section \<open>The parser\<close>

lemma frame_rows_normalise_columns [simp]: "frame_rows (normalise_columns fr) = frame_rows fr"
  by (simp add: normalise_columns_def)

lemma dropna_row_None_iff:
  "dropna_row df nums stamps ir = None \<longleftrightarrow> \<not> retained_row df nums stamps ir"
  by (auto simp: dropna_row_def retained_row_def split: option.splits)

lemma dropna_row_retained:
  "retained_row df nums stamps ir \<Longrightarrow> dropna_row df nums stamps ir = Some (retained_tx df nums stamps ir)"
  by (auto simp: dropna_row_def retained_row_def retained_tx_def split: option.splits)

lemma map_filter_retained:
  "List.map_filter (dropna_row df nums stamps) irs =
     map (retained_tx df nums stamps) (filter (retained_row df nums stamps) irs)"
proof (induction irs)
  case Nil
  show ?case by (simp add: List.map_filter_simps)
next
  case (Cons ir irs)
  show ?case
  proof (cases "retained_row df nums stamps ir")
    case True
    then show ?thesis
      by (simp add: List.map_filter_simps dropna_row_retained Cons.IH)
  next
    case False
    then have "dropna_row df nums stamps ir = None" by (simp add: dropna_row_None_iff)
    with False show ?thesis by (simp add: List.map_filter_simps Cons.IH)
  qed
qed

lemma dropna_retained:
  "dropna df nums stamps =
     map (retained_tx df nums stamps)
       (filter (retained_row df nums stamps) (enumerate 0 (frame_rows df)))"
  by (simp add: dropna_def map_filter_retained)

lemma length_dropna:
  "length (dropna df nums stamps) =
     length (filter (retained_row df nums stamps) (enumerate 0 (frame_rows df)))"
  by (simp add: dropna_retained)

lemma dropna_Nil_iff:
  "dropna df nums stamps = [] \<longleftrightarrow>
     filter (retained_row df nums stamps) (enumerate 0 (frame_rows df)) = []"
  by (simp add: dropna_retained)

text \<open>
  When \<open>parse_csv\<close> returns and what it returns; the two errors it raises for the header.
\<close>

lemma parse_csv_frame:
  assumes "read_csv pd content = Inr fr"
    and "has_required_columns fr" and "single_columns fr"
    and "to_numeric pd (getitem (normalise_columns fr) ''amount'') = Inr nums"
    and "to_datetime pd (getitem (normalise_columns fr) ''timestamp'') = Inr stamps"
  shows "parse_csv pd content =
     Inr (dropna (normalise_columns fr) nums stamps,
          build_graph (dropna (normalise_columns fr) nums stamps),
          build_metadata (dropna (normalise_columns fr) nums stamps))"
proof -
  have m: "filter (\<lambda>col. col \<notin> set (columns (normalise_columns fr))) REQUIRED_COLUMNS = []"
    using assms(2) by (simp add: has_required_columns_def filter_empty_conv list_all_iff)
  from assms(3) have c: "count_list (columns (normalise_columns fr)) ''amount'' = 1"
    "count_list (columns (normalise_columns fr)) ''timestamp'' = 1"
    "count_list (columns (normalise_columns fr)) ''sender_id'' = 1"
    "count_list (columns (normalise_columns fr)) ''receiver_id'' = 1"
    by (simp_all add: single_columns_def)
  show ?thesis
    by (simp add: parse_csv_def Let_def assms(1,4,5) m c)
qed


lemma parse_csv_to_numeric_raises:
  assumes "read_csv pd content = Inr fr"
    and "has_required_columns fr" and "single_columns fr"
    and "to_numeric pd (getitem (normalise_columns fr) ''amount'') = Inl e"
  shows "parse_csv pd content = Inl e"
proof -
  have m: "filter (\<lambda>col. col \<notin> set (columns (normalise_columns fr))) REQUIRED_COLUMNS = []"
    using assms(2) by (simp add: has_required_columns_def filter_empty_conv list_all_iff)
  from assms(3) have c: "count_list (columns (normalise_columns fr)) ''amount'' = 1"
    by (simp add: single_columns_def)
  show ?thesis
    by (simp add: parse_csv_def Let_def assms(1,4) m c bind_err_def)
qed

lemma parse_csv_to_datetime_raises:
  assumes "read_csv pd content = Inr fr"
    and "has_required_columns fr" and "single_columns fr"
    and "to_numeric pd (getitem (normalise_columns fr) ''amount'') = Inr nums"
    and "to_datetime pd (getitem (normalise_columns fr) ''timestamp'') = Inl e"
  shows "parse_csv pd content = Inl e"
proof -
  have m: "filter (\<lambda>col. col \<notin> set (columns (normalise_columns fr))) REQUIRED_COLUMNS = []"
    using assms(2) by (simp add: has_required_columns_def filter_empty_conv list_all_iff)
  from assms(3) have c: "count_list (columns (normalise_columns fr)) ''amount'' = 1"
    "count_list (columns (normalise_columns fr)) ''timestamp'' = 1"
    by (simp_all add: single_columns_def)
  show ?thesis
    by (simp add: parse_csv_def Let_def assms(1,4,5) m c bind_err_def)
qed


lemma build_graph_Nil:
  "nodes (build_graph []) = {} \<and> node_data (build_graph []) = Map.empty \<and>
   edge_data (build_graph []) = Map.empty"
  by (simp add: build_graph_def all_accounts_def edge_group_def [abs_def])

lemma build_metadata_Nil:
  "build_metadata [] = \<lparr>total_transactions = 0, total_accounts = 0, total_edges = 0,
     date_range_start = None, date_range_end = None\<rparr>"
  by (simp add: build_metadata_def all_accounts_def)

text \<open>The four files of the example.\<close>

lemma normalise_required_columns: "map normalise_column REQUIRED_COLUMNS = REQUIRED_COLUMNS"
  by (simp add: REQUIRED_COLUMNS_def normalise_column_def py_strip_def py_isspace_def
      py_lower_char_def upper_letter_def)

lemma first_frame_normalised: "normalise_columns first_frame = first_frame"
  by (simp add: normalise_columns_def first_frame_def normalise_required_columns)

lemma header_only_frame_normalised: "normalise_columns header_only_frame = header_only_frame"
  by (simp add: normalise_columns_def header_only_frame_def normalise_required_columns)

lemma dropped_frame_normalised: "normalise_columns dropped_frame = dropped_frame"
  by (simp add: normalise_columns_def dropped_frame_def normalise_required_columns)

lemma second_frame_normalised:
  "normalise_columns second_frame = second_frame\<lparr>columns := REQUIRED_COLUMNS\<rparr>"
  by (simp add: normalise_columns_def second_frame_def REQUIRED_COLUMNS_def
      normalise_column_def py_strip_def py_isspace_def py_lower_char_def upper_letter_def)

lemma required_columns_ok:
  "columns (normalise_columns fr) = REQUIRED_COLUMNS \<Longrightarrow>
     has_required_columns fr \<and> single_columns fr"
  by (simp add: has_required_columns_def single_columns_def REQUIRED_COLUMNS_def)

lemma example_read_first: "read_csv example_pandas ''first.csv'' = Inr first_frame"
  by (simp add: example_pandas_def)

lemma example_read_second: "read_csv example_pandas ''second.csv'' = Inr second_frame"
  by (simp add: example_pandas_def)

lemma example_read_header: "read_csv example_pandas ''header.csv'' = Inr header_only_frame"
  by (simp add: example_pandas_def)

lemma example_read_dropped: "read_csv example_pandas ''dropped.csv'' = Inr dropped_frame"
  by (simp add: example_pandas_def)

lemma first_frame_columns: "has_required_columns first_frame \<and> single_columns first_frame"
  by (rule required_columns_ok) (simp add: first_frame_normalised, simp add: first_frame_def)

lemma second_frame_columns: "has_required_columns second_frame \<and> single_columns second_frame"
  by (rule required_columns_ok) (simp add: second_frame_normalised)

lemma header_only_frame_columns:
  "has_required_columns header_only_frame \<and> single_columns header_only_frame"
  by (rule required_columns_ok)
     (simp add: header_only_frame_normalised, simp add: header_only_frame_def)

lemma dropped_frame_columns:
  "has_required_columns dropped_frame \<and> single_columns dropped_frame"
  by (rule required_columns_ok) (simp add: dropped_frame_normalised, simp add: dropped_frame_def)

lemma first_frame_coerced:
  "to_numeric example_pandas (getitem (normalise_columns first_frame) ''amount'')
     = Inr [Some 100]"
  "to_datetime example_pandas (getitem (normalise_columns first_frame) ''timestamp'')
     = Inr [Some 1704103200000000000]"
  by (simp_all add: first_frame_normalised)
     (simp_all add: first_frame_def example_pandas_def getitem_def cell_at_def
       REQUIRED_COLUMNS_def)

lemma second_frame_coerced:
  "to_numeric example_pandas (getitem (normalise_columns second_frame) ''amount'')
     = Inr [Some 250, Some 100, None]"
  "to_datetime example_pandas (getitem (normalise_columns second_frame) ''timestamp'')
     = Inr [Some 1704189600000000000, Some 1704103200000000000, Some 1704276000000000000]"
  by (simp_all add: second_frame_normalised)
     (simp_all add: second_frame_def example_pandas_def getitem_def cell_at_def
       REQUIRED_COLUMNS_def)

lemma header_only_frame_coerced:
  "to_numeric example_pandas (getitem (normalise_columns header_only_frame) ''amount'') = Inr []"
  "to_datetime example_pandas (getitem (normalise_columns header_only_frame) ''timestamp'')
     = Inr []"
  by (simp_all add: header_only_frame_def example_pandas_def getitem_def normalise_columns_def)

lemma dropped_frame_coerced:
  "to_numeric example_pandas (getitem (normalise_columns dropped_frame) ''amount'')
     = Inr [Some 100]"
  "to_datetime example_pandas (getitem (normalise_columns dropped_frame) ''timestamp'')
     = Inr [Some 1704103200000000000]"
  by (simp_all add: dropped_frame_normalised)
     (simp_all add: dropped_frame_def example_pandas_def getitem_def cell_at_def
       REQUIRED_COLUMNS_def)

lemma first_frame_dropna:
  "dropna (normalise_columns first_frame) [Some 100] [Some 1704103200000000000] = first_df"
  by (simp add: first_frame_normalised)
     (simp add: first_frame_def dropna_def dropna_row_def List.map_filter_simps cell_at_def
       enumerate_eq_zip REQUIRED_COLUMNS_def first_df_def)

lemma second_frame_retained:
  "filter (retained_row (normalise_columns second_frame) [Some 250, Some 100, None]
             [Some 1704189600000000000, Some 1704103200000000000, Some 1704276000000000000])
     (enumerate 0 (frame_rows second_frame)) =
     [(0, [Some ''T2'', Some ''B'', Some ''C'', Some ''250'', Some ''2024-01-02 10:00:00''])]"
  by (simp add: second_frame_normalised)
     (simp add: second_frame_def retained_row_def cell_at_def enumerate_eq_zip upt_rec
       REQUIRED_COLUMNS_def)

lemma second_frame_dropna:
  "dropna (normalise_columns second_frame) [Some 250, Some 100, None]
     [Some 1704189600000000000, Some 1704103200000000000, Some 1704276000000000000]
     = second_df"
  by (simp add: second_frame_normalised)
     (simp add: second_frame_def dropna_def dropna_row_def List.map_filter_simps cell_at_def
       enumerate_eq_zip upt_rec REQUIRED_COLUMNS_def second_df_def)

lemma first_csv_parsed:
  "parse_csv example_pandas ''first.csv'' =
     Inr (first_df, build_graph first_df, build_metadata first_df)"
  using parse_csv_frame [OF example_read_first first_frame_columns [THEN conjunct1]
      first_frame_columns [THEN conjunct2] first_frame_coerced]
  by (simp only: first_frame_dropna)

lemma second_csv_parsed:
  "parse_csv example_pandas ''second.csv'' =
     Inr (second_df, build_graph second_df, build_metadata second_df)"
  using parse_csv_frame [OF example_read_second second_frame_columns [THEN conjunct1]
      second_frame_columns [THEN conjunct2] second_frame_coerced]
  by (simp only: second_frame_dropna)

text \<open>
  Claim C2, as stated, fails: on a file with the header and no row \<open>parse_csv\<close> returns
  an empty frame, a graph without nodes and metadata with zero counts; it raises
  nothing.
\<close>

theorem parse_csv_header_only_counterexample:
  "parse_csv example_pandas ''header.csv'' = Inr ([], build_graph [], build_metadata []) \<and>
   nodes (build_graph []) = {} \<and>
   total_transactions (build_metadata []) = 0 \<and>
   total_accounts (build_metadata []) = 0"
proof -
  have d: "dropna (normalise_columns header_only_frame) [] [] = []"
    by (simp add: dropna_def header_only_frame_def List.map_filter_simps enumerate_eq_zip)
  have "parse_csv example_pandas ''header.csv'' = Inr ([], build_graph [], build_metadata [])"
    using parse_csv_frame [OF example_read_header header_only_frame_columns [THEN conjunct1]
      header_only_frame_columns [THEN conjunct2] header_only_frame_coerced]
    by (simp only: d)
  then show ?thesis
    by (simp add: build_graph_def build_metadata_def all_accounts_def)
qed

text \<open>
  Claim C2, amended. \<open>parse_csv\<close> has no error for an empty graph. When pandas reads the
  file, the normalised header has every required column (sender, receiver, amount and
  timestamp once each), the two coercions raise nothing and no row is retained,
  \<open>parse_csv\<close> returns the empty frame, the graph without nodes and edges, and metadata
  with zero counts and no date range.
\<close>

theorem parse_csv_failures:
  assumes "read_csv pd content = Inr fr"
    and "has_required_columns fr" and "single_columns fr"
    and "to_numeric pd (getitem (normalise_columns fr) ''amount'') = Inr nums"
    and "to_datetime pd (getitem (normalise_columns fr) ''timestamp'') = Inr stamps"
    and "filter (retained_row (normalise_columns fr) nums stamps) (enumerate 0 (frame_rows fr)) = []"
  shows "parse_csv pd content = Inr ([], build_graph [], build_metadata []) \<and>
         nodes (build_graph []) = {} \<and>
         edge_data (build_graph []) = Map.empty \<and>
         build_metadata [] = \<lparr>total_transactions = 0, total_accounts = 0, total_edges = 0,
           date_range_start = None, date_range_end = None\<rparr>"
proof -
  have "dropna (normalise_columns fr) nums stamps = []"
    using assms(6) by (simp add: dropna_Nil_iff)
  with parse_csv_frame [OF assms(1-5)]
  have "parse_csv pd content = Inr ([], build_graph [], build_metadata [])" by simp
  then show ?thesis by (simp add: build_graph_Nil build_metadata_Nil)
qed

theorem parse_csv_failures_witness:
  "read_csv example_pandas ''dropped.csv'' = Inr dropped_frame \<and>
   has_required_columns dropped_frame \<and> single_columns dropped_frame \<and>
   to_numeric example_pandas (getitem (normalise_columns dropped_frame) ''amount'')
     = Inr [Some 100] \<and>
   to_datetime example_pandas (getitem (normalise_columns dropped_frame) ''timestamp'')
     = Inr [Some 1704103200000000000] \<and>
   frame_rows dropped_frame \<noteq> [] \<and>
   filter (retained_row (normalise_columns dropped_frame) [Some 100] [Some 1704103200000000000])
     (enumerate 0 (frame_rows dropped_frame)) = [] \<and>
   parse_csv example_pandas ''dropped.csv'' = Inr ([], build_graph [], build_metadata []) \<and>
   nodes (build_graph []) = {}"
proof -
  have f: "filter (retained_row (normalise_columns dropped_frame) [Some 100]
               [Some 1704103200000000000])
      (enumerate 0 (frame_rows dropped_frame)) = []"
    by (simp add: dropped_frame_normalised)
       (simp add: dropped_frame_def retained_row_def cell_at_def enumerate_eq_zip
         REQUIRED_COLUMNS_def)
  have n: "frame_rows dropped_frame \<noteq> []" by (simp add: dropped_frame_def)
  from parse_csv_failures [OF example_read_dropped dropped_frame_columns [THEN conjunct1]
      dropped_frame_columns [THEN conjunct2] dropped_frame_coerced f]
    example_read_dropped dropped_frame_columns dropped_frame_coerced f n
  show ?thesis by simp
qed



section \<open>The endpoints\<close>

lemma analyze_csv_parse_fails:
  "bind_err upload (parse_csv pd) = Inl e \<Longrightarrow>
     fst (analyze_csv pd agents respond upload s) = s"
  by (simp add: analyze_csv_def)

lemma analyze_csv_parsed:
  "bind_err upload (parse_csv pd) = Inr (df, G, md) \<Longrightarrow>
     analyze_csv pd agents respond upload s =
       (case agents df G md of
          Inl e \<Rightarrow> (s\<lparr>latest_graph := Some G, latest_df := Some df\<rparr>,
                    if is_ValueError e then HTTPException 400 (StrOf e)
                    else HTTPException 500 (AnalysisError e))
        | Inr final_output \<Rightarrow>
            (s\<lparr>latest_graph := Some G, latest_df := Some df,
               latest_results := Some final_output\<rparr>,
             case respond final_output of
               Some e \<Rightarrow> if is_ValueError e then HTTPException 400 (StrOf e)
                         else HTTPException 500 (AnalysisError e)
             | None \<Rightarrow> JSONResponse final_output))"
  by (simp add: analyze_csv_def Let_def split: sum.splits option.splits)

lemma after_first_eq:
  "after_first =
     \<lparr>latest_results = Some (build_metadata first_df),
      latest_graph = Some (build_graph first_df),
      latest_df = Some first_df\<rparr>"
  by (simp add: after_first_def analyze_csv_def first_csv_parsed metadata_agents_def
      respond_ok_def initial_state_def)

lemma failed_second_request:
  "analyze_csv example_pandas failing_agents respond_ok (Inr ''second.csv'') after_first =
     (after_first\<lparr>latest_graph := Some (build_graph second_df), latest_df := Some second_df\<rparr>,
      HTTPException 500 (AnalysisError OtherError))"
  by (simp add: analyze_csv_def second_csv_parsed failing_agents_def is_ValueError_def)

lemma failed_second_response:
  "analyze_csv example_pandas metadata_agents respond_fails (Inr ''second.csv'') after_first =
     (after_first\<lparr>latest_graph := Some (build_graph second_df), latest_df := Some second_df,
                  latest_results := Some (build_metadata second_df)\<rparr>,
      HTTPException 500 (AnalysisError TypeError))"
  by (simp add: analyze_csv_def second_csv_parsed metadata_agents_def respond_fails_def
      is_ValueError_def)

lemma after_first_graph: "nodes (build_graph first_df) = {''A'', ''B''}"
  by (auto simp: first_df_def build_graph_def all_accounts_def)

lemma whatif_simulate_state: "fst (whatif_simulate simulator body s) = s"
  by (simp add: whatif_simulate_def Let_def split: option.splits json.splits)

lemma whatif_simulate_no_analysis:
  "\<not> graph_truthy (latest_graph s) \<or> latest_results s = None \<Longrightarrow>
     whatif_simulate simulator body s = (s, Inr (HTTPException 400 NoAnalysisResults))"
  by (auto simp: whatif_simulate_def graph_truthy_def split: option.splits)

text \<open>
  Claim C8, as stated, fails: a request that parses and then fails in an agent has
  already replaced \<open>latest_graph\<close> and \<open>latest_df\<close>, while \<open>latest_results\<close> is still the
  result of the request before.
\<close>

theorem analyze_csv_partial_state_counterexample:
  "snd (analyze_csv example_pandas failing_agents respond_ok (Inr ''second.csv'') after_first)
     = HTTPException 500 (AnalysisError OtherError) \<and>
   fst (analyze_csv example_pandas failing_agents respond_ok (Inr ''second.csv'') after_first)
     \<noteq> after_first \<and>
   latest_results
     (fst (analyze_csv example_pandas failing_agents respond_ok (Inr ''second.csv'') after_first))
     = latest_results after_first \<and>
   latest_df
     (fst (analyze_csv example_pandas failing_agents respond_ok (Inr ''second.csv'') after_first))
     \<noteq> latest_df after_first"
proof -
  have "latest_df
     (fst (analyze_csv example_pandas failing_agents respond_ok (Inr ''second.csv'') after_first))
     \<noteq> latest_df after_first"
    by (simp add: failed_second_request)
       (simp add: after_first_eq first_df_def second_df_def)
  moreover from this
  have "fst (analyze_csv example_pandas failing_agents respond_ok (Inr ''second.csv'') after_first)
     \<noteq> after_first"
    by auto
  ultimately show ?thesis by (simp add: failed_second_request)
qed

text \<open>
  Claim C8, amended. What a failed request leaves behind depends on where it fails.
  When it fails before \<open>parse_csv\<close> returns, the whole state is unchanged. When it fails
  in steps 2 to 9, \<open>latest_graph\<close> and \<open>latest_df\<close> are the graph and the frame of the
  failed request and \<open>latest_results\<close> is unchanged. When it fails after step 9, in the
  log line or in the construction of the response, all three are those of the failed
  request.
\<close>

theorem analyze_csv_failed_request:
  assumes "analyze_csv pd agents respond upload s = (s', HTTPException code d)"
  shows "case bind_err upload (parse_csv pd) of
           Inl e \<Rightarrow> s' = s
         | Inr (df, G, md) \<Rightarrow>
             latest_graph s' = Some G \<and> latest_df s' = Some df \<and>
             (case agents df G md of
                Inl e \<Rightarrow> latest_results s' = latest_results s
              | Inr final_output \<Rightarrow>
                  latest_results s' = Some final_output \<and> respond final_output \<noteq> None)"
proof (cases "bind_err upload (parse_csv pd)")
  case (Inl e)
  with assms show ?thesis by (auto simp: analyze_csv_def Let_def)
next
  case (Inr parsed)
  obtain df G md where p: "parsed = (df, G, md)" by (cases parsed)
  from assms show ?thesis
    unfolding analyze_csv_parsed [OF Inr [unfolded p]]
    by (auto simp: Inr p split: sum.splits option.splits if_splits)
qed

theorem analyze_csv_failed_request_witness:
  "analyze_csv example_pandas failing_agents respond_ok (Inr ''second.csv'') after_first =
     (after_first\<lparr>latest_graph := Some (build_graph second_df), latest_df := Some second_df\<rparr>,
      HTTPException 500 (AnalysisError OtherError)) \<and>
   latest_results
     (after_first\<lparr>latest_graph := Some (build_graph second_df), latest_df := Some second_df\<rparr>)
     = latest_results after_first \<and>
   analyze_csv example_pandas metadata_agents respond_fails (Inr ''second.csv'') after_first =
     (after_first\<lparr>latest_graph := Some (build_graph second_df), latest_df := Some second_df,
                  latest_results := Some (build_metadata second_df)\<rparr>,
      HTTPException 500 (AnalysisError TypeError)) \<and>
   latest_results
     (after_first\<lparr>latest_graph := Some (build_graph second_df), latest_df := Some second_df,
                  latest_results := Some (build_metadata second_df)\<rparr>)
     = Some (build_metadata second_df)"
  using analyze_csv_failed_request [OF failed_second_request]
    analyze_csv_failed_request [OF failed_second_response]
    failed_second_request failed_second_response
  by (simp add: second_csv_parsed failing_agents_def metadata_agents_def)

text \<open>
  Claim C9, as stated, fails in its second half: with no analysis stored, a request
  with a non-empty node list is rejected and the simulator is not called.
\<close>

theorem whatif_simulate_no_analysis_counterexample:
  "whatif_simulate echo_simulator (JObject [(''nodes'', JArray [JString ''A''])]) initial_state
     = (initial_state, Inr (HTTPException 400 NoAnalysisResults))"
  by (simp add: whatif_simulate_def initial_state_def)

text \<open>
  Claim C9, amended. A request whose node list is absent or empty (its \<open>nodes\<close> value
  is false in Python) is rejected with status 400, the state is unchanged and the answer
  does not depend on the simulator. A request with a non-empty node list gets the
  simulator's answer when a graph with at least one node and a result are stored, and
  is rejected with status 400 otherwise.
\<close>

theorem whatif_simulate_gate:
  "(\<not> truthy (json_get kvs ''nodes'' (JArray [])) \<longrightarrow>
      (\<exists>d. whatif_simulate simulator (JObject kvs) s = (s, Inr (HTTPException 400 d))) \<and>
      whatif_simulate simulator (JObject kvs) s = whatif_simulate simulator' (JObject kvs) s) \<and>
   (truthy (json_get kvs ''nodes'' (JArray [])) \<longrightarrow>
      (latest_graph s = Some G \<and> nodes G \<noteq> {} \<and> latest_results s = Some results \<longrightarrow>
         whatif_simulate simulator (JObject kvs) s =
           (s, bind_err (simulator G (latest_df s) results (json_get kvs ''nodes'' (JArray [])))
                 (\<lambda>result. Inr (JSONResponse result)))) \<and>
      (\<not> graph_truthy (latest_graph s) \<or> latest_results s = None \<longrightarrow>
         whatif_simulate simulator (JObject kvs) s =
           (s, Inr (HTTPException 400 NoAnalysisResults))))"
  by (auto simp: whatif_simulate_def graph_truthy_def Let_def split: option.splits)

theorem whatif_simulate_gate_witness:
  "\<not> truthy (json_get [(''nodes'', JArray [])] ''nodes'' (JArray [])) \<and>
   whatif_simulate echo_simulator (JObject [(''nodes'', JArray [])]) after_first
     = (after_first, Inr (HTTPException 400 NoNodesSpecified)) \<and>
   whatif_simulate echo_simulator (JObject [(''nodes'', JArray [])]) after_first
     = whatif_simulate failing_simulator (JObject [(''nodes'', JArray [])]) after_first \<and>
   truthy (json_get [(''nodes'', JArray [JString ''A''])] ''nodes'' (JArray [])) \<and>
   latest_graph after_first
     = Some (build_graph (first_df)) \<and>
   nodes (build_graph (first_df)) \<noteq> {} \<and>
   latest_results after_first
     = Some (build_metadata (first_df)) \<and>
   whatif_simulate echo_simulator (JObject [(''nodes'', JArray [JString ''A''])]) after_first
     = (after_first, Inr (JSONResponse (JArray [JString ''A''])))"
proof -
  let ?G = "build_graph (first_df)"
  let ?r = "build_metadata (first_df)"
  have e: "\<not> truthy (json_get [(''nodes'', JArray [])] ''nodes'' (JArray []))"
    by (simp add: json_get_def)
  have v: "json_get [(''nodes'', JArray [JString ''A''])] ''nodes'' (JArray [])
      = JArray [JString ''A'']"
    by (simp add: json_get_def)
  have n: "truthy (json_get [(''nodes'', JArray [JString ''A''])] ''nodes'' (JArray []))"
    by (simp add: v)
  have g: "latest_graph after_first = Some ?G" by (simp add: after_first_eq)
  have r: "latest_results after_first = Some ?r" by (simp add: after_first_eq)
  have ne: "nodes ?G \<noteq> {}" by (simp add: after_first_graph)
  from whatif_simulate_gate [where kvs = "[(''nodes'', JArray [])]"
      and simulator = echo_simulator and s = after_first and simulator' = failing_simulator] e
  have 1: "whatif_simulate echo_simulator (JObject [(''nodes'', JArray [])]) after_first
     = whatif_simulate failing_simulator (JObject [(''nodes'', JArray [])]) after_first"
    by blast
  have 2: "whatif_simulate echo_simulator (JObject [(''nodes'', JArray [])]) after_first
     = (after_first, Inr (HTTPException 400 NoNodesSpecified))"
    using g r ne by (simp add: whatif_simulate_def graph_truthy_def json_get_def)
  from whatif_simulate_gate [where kvs = "[(''nodes'', JArray [JString ''A''])]"
      and s = after_first and G = ?G and results = ?r and simulator = echo_simulator]
    g r ne n
  have "whatif_simulate echo_simulator (JObject [(''nodes'', JArray [JString ''A''])]) after_first
     = (after_first,
        bind_err (echo_simulator ?G (latest_df after_first) ?r
            (json_get [(''nodes'', JArray [JString ''A''])] ''nodes'' (JArray [])))
          (\<lambda>result. Inr (JSONResponse result)))"
    by blast
  then have 3: "whatif_simulate echo_simulator (JObject [(''nodes'', JArray [JString ''A''])]) after_first
     = (after_first, Inr (JSONResponse (JArray [JString ''A''])))"
    by (simp add: echo_simulator_def v)
  from e n g r ne 1 2 3 show ?thesis by blast
qed

end
